theory Spec2Isabelle
  imports Complex_Main "HOL-Library.Sublist"
begin


section \<open>Python values used by the agents\<close>

text \<open>
  A Python \<open>str\<close> is modelled as a \<open>string\<close>; each \<open>char\<close> stands for one code
  point in the range 0..255.  Exceptions are values: a function that can raise returns
  \<open>exn + 'a\<close> with \<open>Inl\<close> for the exception.
\<close>

datatype exn =
    JSONDecodeError string
  | KeyError string
  | AttributeError string
  | TypeError string
  | Exception string

text \<open>\<open>str(e)\<close>: each exception carries its message.\<close>

fun str_exn :: "exn \<Rightarrow> string" where
  "str_exn (JSONDecodeError m) = m"
| "str_exn (KeyError m) = m"
| "str_exn (AttributeError m) = m"
| "str_exn (TypeError m) = m"
| "str_exn (Exception m) = m"

definition exn_bind :: "exn + 'a \<Rightarrow> ('a \<Rightarrow> exn + 'b) \<Rightarrow> exn + 'b" where
  "exn_bind m f = (case m of Inl e \<Rightarrow> Inl e | Inr x \<Rightarrow> f x)"

subsection \<open>Strings\<close>

text \<open>\<open>needle in haystack\<close>, \<open>s.endswith(suf)\<close> and \<open>s.startswith(pre)\<close>.\<close>

definition str_in :: "string \<Rightarrow> string \<Rightarrow> bool" where
  "str_in needle haystack = sublist needle haystack"

definition endswith :: "string \<Rightarrow> string \<Rightarrow> bool" where
  "endswith s suf = suffix suf s"

definition startswith :: "string \<Rightarrow> string \<Rightarrow> bool" where
  "startswith s pre = prefix pre s"

text \<open>
  \<open>str.lower()\<close> on the code points 0..255: the letters A..Z and the upper-case letters
  of the range 192..222 (215, the multiplication sign, is not one) move up by 32.
\<close>

definition lower_char :: "char \<Rightarrow> char" where
  "lower_char c =
     (let n = (of_char c :: nat)
      in if (65 \<le> n \<and> n \<le> 90) \<or> (192 \<le> n \<and> n \<le> 222 \<and> n \<noteq> 215)
         then char_of (n + 32) else c)"

definition py_lower :: "string \<Rightarrow> string" where
  "py_lower s = map lower_char s"

text \<open>\<open>s.strip(chars)\<close>: the characters of \<open>chars\<close> are removed from both ends.\<close>

definition py_strip :: "string \<Rightarrow> string \<Rightarrow> string" where
  "py_strip chars s =
     rev (dropWhile (\<lambda>c. c \<in> set chars) (rev (dropWhile (\<lambda>c. c \<in> set chars) s)))"


text \<open>\<open>str(n)\<close> for an integer: decimal digits, with a minus sign when negative.\<close>

definition digit_char :: "nat \<Rightarrow> char" where
  "digit_char d = ''0123456789'' ! d"

function str_nat :: "nat \<Rightarrow> string" where
  "str_nat n = (if n < 10 then [digit_char n] else str_nat (n div 10) @ [digit_char (n mod 10)])"
  by pat_completeness auto
termination
  by (relation "measure (\<lambda>n. n)") auto

declare str_nat.simps [simp del]

definition str_int :: "int \<Rightarrow> string" where
  "str_int i = (if i < 0 then CHR ''-'' # str_nat (nat (- i)) else str_nat (nat i))"

subsection \<open>Decoded JSON\<close>

text \<open>
  The values \<open>json.loads\<close> produces: \<open>None\<close>, \<open>bool\<close>, \<open>int\<close>, \<open>float\<close>, \<open>str\<close>,
  \<open>list\<close> and \<open>dict\<close>.  A dictionary is an association list in insertion order with
  one entry for each key.
\<close>

datatype pyfloat = Finite real | PosInf | NegInf | NaN

datatype json =
    JNull
  | JBool bool
  | JInt int
  | JFloat pyfloat
  | JStr string
  | JArr "json list"
  | JObj "(string \<times> json) list"

type_synonym pydict = "(string \<times> json) list"

text \<open>Truth value of a Python object, as \<open>if\<close>, \<open>not\<close>, \<open>and\<close> and \<open>or\<close> test it.\<close>

fun truthy :: "json \<Rightarrow> bool" where
  "truthy JNull = False"
| "truthy (JBool b) = b"
| "truthy (JInt i) = (i \<noteq> 0)"
| "truthy (JFloat x) = (x \<noteq> Finite 0)"
| "truthy (JStr s) = (s \<noteq> [])"
| "truthy (JArr xs) = (xs \<noteq> [])"
| "truthy (JObj kvs) = (kvs \<noteq> [])"

text \<open>\<open>d.get(k, default)\<close> on a dictionary, and on any object (only a \<open>dict\<close> has \<open>get\<close>).\<close>

definition dict_get :: "pydict \<Rightarrow> string \<Rightarrow> json \<Rightarrow> json" where
  "dict_get d k dflt = (case map_of d k of None \<Rightarrow> dflt | Some v \<Rightarrow> v)"

fun type_name :: "json \<Rightarrow> string" where
  "type_name JNull = ''NoneType''"
| "type_name (JBool b) = ''bool''"
| "type_name (JInt i) = ''int''"
| "type_name (JFloat x) = ''float''"
| "type_name (JStr s) = ''str''"
| "type_name (JArr xs) = ''list''"
| "type_name (JObj d) = ''dict''"

definition no_attribute :: "json \<Rightarrow> string \<Rightarrow> exn" where
  "no_attribute v attr =
     AttributeError ([CHR 0x27] @ type_name v @ [CHR 0x27] @ '' object has no attribute ''
                     @ [CHR 0x27] @ attr @ [CHR 0x27])"

fun py_get :: "json \<Rightarrow> string \<Rightarrow> json \<Rightarrow> exn + json" where
  "py_get (JObj d) k dflt = Inr (dict_get d k dflt)"
| "py_get v k dflt = Inl (no_attribute v ''get'')"

text \<open>\<open>d[k] = v\<close>: an existing key keeps its place, a new key goes to the end.\<close>

fun dict_set :: "pydict \<Rightarrow> string \<Rightarrow> json \<Rightarrow> pydict" where
  "dict_set [] k v = [(k, v)]"
| "dict_set ((k', v') # d) k v = (if k' = k then (k, v) # d else (k', v') # dict_set d k v)"

section \<open>Platform client (src/github/client.py)\<close>

subsection \<open>Issue status labels\<close>

text \<open>
  An issue and a pull request as the agents see them: the label names as a set
  (\<open>{label.name for label in issue.labels}\<close>), the comments posted so far and, for a
  pull request, the branch it comes from and the names of its changed files.
\<close>

record issue =
  issue_number :: int
  issue_title :: string
  issue_body :: "string option"
  issue_labels :: "string set"
  issue_comments :: "string list"

record pull_request =
  pr_body :: string
  pr_head_ref :: string
  pr_files :: "string list"
  pr_labels :: "string set"
  pr_comments :: "string list"




subsection \<open>CI status aggregation\<close>

text \<open>
  A commit status entry as read from the platform (it is also the job record that
  \<open>get_ci_status\<close> builds from it) and the dictionary \<open>get_ci_status\<close> returns.  The
  pull request is seen through the list of its commits, each with its status entries.
\<close>

record commit_status =
  cs_context :: string
  cs_state :: string
  cs_description :: "string option"
  cs_target_url :: "string option"

record commit =
  sha :: string
  statuses :: "commit_status list"

record ci_status =
  ci_success :: bool
  ci_jobs :: "commit_status list"
  ci_details :: string

text \<open>One turn of the loop over the statuses of the latest commit.\<close>

definition ci_step :: "ci_status \<Rightarrow> commit_status \<Rightarrow> ci_status" where
  "ci_step results st =
     (let results1 = results\<lparr>ci_jobs := ci_jobs results @ [st]\<rparr>
      in if cs_state st \<noteq> ''success''
         then results1\<lparr>ci_success := False,
                ci_details := ci_details results1 @ cs_context st @ '': '' @ cs_state st @ [CHR 0x0A]\<rparr>
         else results1)"

definition get_ci_status :: "commit list \<Rightarrow> ci_status" where
  "get_ci_status commits =
     (if commits = []
      then \<lparr>ci_success = False, ci_jobs = [], ci_details = ''No commits found''\<rparr>
      else foldl ci_step \<lparr>ci_success = True, ci_jobs = [], ci_details = []\<rparr>
             (statuses (last commits)))"

section \<open>Reviewer agent (src/agents/reviewer_agent.py)\<close>

subsection \<open>Review decision\<close>

text \<open>
  The review result is a dictionary of decoded JSON; the decision reads two of its keys
  with \<open>dict.get\<close> and tests them as Python does: \<open>meets_requirements\<close> by its truth
  value, the status by equality with the string \<open>approved\<close>.  The CI status is the
  dictionary \<open>get_ci_status\<close> built, which always has the key \<open>success\<close>.
\<close>

definition determine_next_action :: "pydict \<Rightarrow> ci_status \<Rightarrow> string" where
  "determine_next_action review_results ci =
     (let meets_requirements = dict_get review_results ''meets_requirements'' (JBool False);
          review_status = dict_get review_results ''status'' (JStr ''needs_work'');
          ci_ok = ci_success ci
      in if truthy meets_requirements \<and> review_status = JStr ''approved'' \<and> ci_ok then ''merge''
         else if \<not> ci_ok then ''fix_ci''
         else if \<not> truthy meets_requirements \<or> review_status \<noteq> JStr ''approved''
              then ''request_changes''
         else ''wait'')"

text \<open>
  The decision table as the specification words it, on the three values the decision
  depends on; its rows are tried from the top.
\<close>

definition decision_table :: "bool \<Rightarrow> json \<Rightarrow> bool \<Rightarrow> string" where
  "decision_table meets review_status ci_ok =
     (if meets \<and> review_status = JStr ''approved'' \<and> ci_ok then ''merge''
      else if \<not> ci_ok then ''fix_ci''
      else if ci_ok \<and> (\<not> meets \<or> review_status \<noteq> JStr ''approved'') then ''request_changes''
      else ''wait'')"

subsection \<open>Review comment\<close>



















subsection \<open>Review outcome labels\<close>



section \<open>Code agent (src/agents/code_agent.py)\<close>

text \<open>The fields of the settings object (src/utils/config.py) that the agent reads.\<close>

record settings =
  branch_prefix :: string
  max_iterations :: int

subsection \<open>File relevance resolver\<close>

text \<open>\<open>any(keyword in requirement for keyword in keywords)\<close>.\<close>

definition any_keyword :: "string list \<Rightarrow> string \<Rightarrow> bool" where
  "any_keyword keywords requirement = list_ex (\<lambda>keyword. str_in keyword requirement) keywords"

definition determine_file_patterns :: "string \<Rightarrow> string list" where
  "determine_file_patterns requirement =
     (let patterns = [];
          patterns = (if any_keyword [''python'', ''.py'', ''py file''] requirement
                      then patterns @ [''*.py''] else patterns);
          patterns = (if any_keyword [''documentation'', ''readme'', ''.md'', ''markdown''] requirement
                      then patterns @ [''*.md''] else patterns);
          patterns = (if any_keyword [''test'', ''tests'', ''testing''] requirement
                      then patterns @ [''*test*.py''] else patterns);
          patterns = (if any_keyword [''config'', ''configuration'', ''.json'', ''.yaml'', ''.yml'']
                           requirement
                      then patterns @ [''*.json'', ''*.yaml'', ''*.yml''] else patterns)
      in if patterns = [] then [''*.py''] else patterns)"

text \<open>
  \<open>_pattern_matches\<close>.  The slices are \<open>pattern[1:] = drop 1 pattern\<close> and
  \<open>pattern[1:-1] = butlast (drop 1 pattern)\<close>.
\<close>

definition pattern_matches :: "string \<Rightarrow> string \<Rightarrow> bool" where
  "pattern_matches pattern file_path =
     (if startswith pattern ''*''
      then endswith file_path (drop 1 pattern)
           \<or> (if str_in ''*'' (butlast (drop 1 pattern))
               then str_in (butlast (drop 1 pattern)) file_path else False)
      else file_path = pattern)"

definition excluded_parts :: "string list" where
  "excluded_parts =
     [''__pycache__'', ''node_modules/'', ''venv/'', ''.venv/'', ''env/'', ''dist/'', ''build/'', ''.git'']"

text \<open>
  \<open>_discover_relevant_files\<close>.  The repository tree is the list of the paths of its
  entries, in tree order, or the exception its retrieval raised.
\<close>

definition discover_relevant_files :: "exn + string list \<Rightarrow> string \<Rightarrow> string list" where
  "discover_relevant_files tree_result requirement =
     (case tree_result of
        Inl e \<Rightarrow> []
      | Inr tree \<Rightarrow>
          if tree = [] then []
          else let patterns = determine_file_patterns requirement;
                   discovered_files =
                     filter (\<lambda>path. list_ex (\<lambda>pattern. pattern_matches pattern path) patterns
                                   \<and> \<not> list_ex (\<lambda>exclude. str_in exclude path) excluded_parts)
                       tree
               in take 50 discovered_files)"

subsection \<open>Branch name\<close>

text \<open>\<open>re.sub(r'[^a-zA-Z0-9-]', '-', s)\<close>: every other character becomes a hyphen.\<close>

definition is_branch_char :: "char \<Rightarrow> bool" where
  "is_branch_char c =
     (let n = (of_char c :: nat)
      in (97 \<le> n \<and> n \<le> 122) \<or> (65 \<le> n \<and> n \<le> 90) \<or> (48 \<le> n \<and> n \<le> 57) \<or> c = CHR ''-'')"

definition sub_non_branch_chars :: "string \<Rightarrow> string" where
  "sub_non_branch_chars s = map (\<lambda>c. if is_branch_char c then c else CHR ''-'') s"

text \<open>\<open>re.sub(r'-+', '-', s)\<close>: every maximal run of hyphens becomes one hyphen.\<close>

function sub_hyphen_runs :: "string \<Rightarrow> string" where
  "sub_hyphen_runs [] = []"
| "sub_hyphen_runs (c # cs) =
     (if c = CHR ''-'' then CHR ''-'' # sub_hyphen_runs (dropWhile (\<lambda>d. d = CHR ''-'') cs)
      else c # sub_hyphen_runs cs)"
  by pat_completeness auto
termination
  by (relation "measure length") (auto simp: length_dropWhile_le less_Suc_eq_le)

definition branch_name_of :: "settings \<Rightarrow> int \<Rightarrow> string \<Rightarrow> string" where
  "branch_name_of cfg issue_no title =
     (let clean_title = sub_non_branch_chars (py_lower title);
          clean_title = take 50 (py_strip ''-'' (sub_hyphen_runs clean_title))
      in take 100 (branch_prefix cfg @ ''issue-'' @ str_int issue_no @ ''-'' @ clean_title))"

text \<open>
  \<open>_create_implementation_plan\<close>: the plan dictionary.  Reading the file list out of the
  analysis needs a dictionary under the key \<open>analysis\<close>.
\<close>

record plan =
  plan_issue_number :: int
  plan_branch_name :: string
  plan_files_to_modify :: json
  plan_analysis :: json

definition create_implementation_plan :: "settings \<Rightarrow> int \<Rightarrow> string \<Rightarrow> json \<Rightarrow> exn + plan" where
  "create_implementation_plan cfg issue_no title analysis =
     (let branch_name = branch_name_of cfg issue_no title
      in exn_bind (py_get analysis ''analysis'' (JObj [])) (\<lambda>a.
         exn_bind (py_get a ''files_to_modify'' (JArr [])) (\<lambda>files.
           Inr \<lparr>plan_issue_number = issue_no, plan_branch_name = branch_name,
                plan_files_to_modify = files, plan_analysis = analysis\<rparr>)))"

text \<open>
  The derivation read word for word from its description: lower-case the title, turn
  every maximal run of characters that are neither letters, digits nor hyphens into one
  hyphen (a hyphen of the title is kept as it is and ends such a run), trim the hyphens
  at both ends, keep 50 characters, put the configured prefix in front, keep 100
  characters.
\<close>

function stated_collapse :: "string \<Rightarrow> string" where
  "stated_collapse [] = []"
| "stated_collapse (c # cs) =
     (if is_branch_char c then c # stated_collapse cs
      else CHR ''-'' # stated_collapse (dropWhile (\<lambda>d. \<not> is_branch_char d) cs))"
  by pat_completeness auto
termination
  by (relation "measure length") (auto simp: length_dropWhile_le less_Suc_eq_le)

definition stated_branch_name :: "settings \<Rightarrow> string \<Rightarrow> string" where
  "stated_branch_name cfg title =
     take 100 (branch_prefix cfg @ take 50 (py_strip ''-'' (stated_collapse (py_lower title))))"

text \<open>
  The derivation in one pass over the lower-cased title: every maximal run of characters
  other than letters and digits, the hyphens of the title among them, becomes one
  hyphen; then the hyphens at both ends are trimmed, 50 characters are kept, the
  configured prefix followed by \<open>issue-\<close>, the issue number and a hyphen is put in
  front, and 100 characters are kept.
\<close>

definition is_alnum :: "char \<Rightarrow> bool" where
  "is_alnum c = (is_branch_char c \<and> c \<noteq> CHR ''-'')"

function collapse_runs :: "string \<Rightarrow> string" where
  "collapse_runs [] = []"
| "collapse_runs (c # cs) =
     (if is_alnum c then c # collapse_runs cs
      else CHR ''-'' # collapse_runs (dropWhile (\<lambda>d. \<not> is_alnum d) cs))"
  by pat_completeness auto
termination
  by (relation "measure length") (auto simp: length_dropWhile_le less_Suc_eq_le)

definition one_pass_branch_name :: "settings \<Rightarrow> int \<Rightarrow> string \<Rightarrow> string" where
  "one_pass_branch_name cfg issue_no title =
     take 100 (branch_prefix cfg @ ''issue-'' @ str_int issue_no @ ''-''
               @ take 50 (py_strip ''-'' (collapse_runs (py_lower title))))"

subsection \<open>Revision on review feedback\<close>

text \<open>
  The platform as \<open>handle_review_feedback\<close> uses it: the pull requests by number, the
  file contents by branch and path, and the commits made.  A pull request that does not
  exist makes the platform call raise; a write to a file succeeds.
\<close>

record platform =
  pulls :: "int \<Rightarrow> pull_request option"
  contents :: "string \<times> string \<Rightarrow> string option"
  commit_log :: "(string \<times> string \<times> string) list"

definition get_pull_request :: "platform \<Rightarrow> int \<Rightarrow> exn + pull_request" where
  "get_pull_request p n =
     (case pulls p n of None \<Rightarrow> Inl (Exception ''Not Found'') | Some pr \<Rightarrow> Inr pr)"

definition add_pr_comment :: "platform \<Rightarrow> int \<Rightarrow> string \<Rightarrow> exn + platform" where
  "add_pr_comment p n comment =
     exn_bind (get_pull_request p n) (\<lambda>pr.
       Inr (p\<lparr>pulls := (pulls p)(n \<mapsto> pr\<lparr>pr_comments := pr_comments pr @ [comment]\<rparr>)\<rparr>))"

text \<open>\<open>get_file_content\<close> returns \<open>None\<close> when the file cannot be read.\<close>

definition get_file_content :: "platform \<Rightarrow> string \<Rightarrow> string \<Rightarrow> string option" where
  "get_file_content p file_path ref = contents p (ref, file_path)"

definition create_or_update_file :: "platform \<Rightarrow> string \<Rightarrow> string \<Rightarrow> string \<Rightarrow> string \<Rightarrow> platform" where
  "create_or_update_file p file_path content commit_message branch =
     p\<lparr>contents := (contents p)((branch, file_path) \<mapsto> content),
       commit_log := commit_log p @ [(branch, file_path, commit_message)]\<rparr>"

text \<open>
  The language model, as \<open>_apply_feedback_to_file\<close> calls it: from the file path, the
  current content, the feedback and the description of the pull request (the parts of
  the prompt) to the generated text, or the exception the call raised.  The answer is
  stripped of white space at both ends.
\<close>

type_synonym llm = "string \<Rightarrow> string \<Rightarrow> string \<Rightarrow> string \<Rightarrow> exn + string"

definition whitespace :: string where
  "whitespace = [CHR 0x09, CHR 0x0A, CHR 0x0B, CHR 0x0C, CHR 0x0D, CHR 0x1C, CHR 0x1D, CHR 0x1E,
                 CHR 0x1F, CHR 0x20, CHR 0x85, CHR 0xA0]"

definition apply_feedback_to_file :: "llm \<Rightarrow> string \<Rightarrow> string \<Rightarrow> string \<Rightarrow> string \<Rightarrow> exn + string" where
  "apply_feedback_to_file generate file_path current_content feedback pr_description =
     exn_bind (generate file_path current_content feedback pr_description) (\<lambda>response.
       Inr (py_strip whitespace response))"

record code_agent =
  iteration_count :: int

text \<open>The loop over the changed files; an exception inside one turn is caught there.\<close>

fun revise_files :: "llm \<Rightarrow> int \<Rightarrow> string \<Rightarrow> pull_request \<Rightarrow> string list \<Rightarrow> platform \<Rightarrow> platform" where
  "revise_files generate pr_no feedback pr [] p = p"
| "revise_files generate pr_no feedback pr (file_path # rest) p =
     (case get_file_content p file_path (pr_head_ref pr) of
        None \<Rightarrow> revise_files generate pr_no feedback pr rest p
      | Some current_content \<Rightarrow>
          if current_content = [] then revise_files generate pr_no feedback pr rest p
          else (case apply_feedback_to_file generate file_path current_content feedback (pr_body pr) of
                  Inl e \<Rightarrow> revise_files generate pr_no feedback pr rest p
                | Inr new_content \<Rightarrow>
                    if new_content \<noteq> current_content
                    then revise_files generate pr_no feedback pr rest
                           (create_or_update_file p file_path new_content
                              (''Apply review feedback for PR #'' @ str_int pr_no) (pr_head_ref pr))
                    else revise_files generate pr_no feedback pr rest p))"

definition escalation_comment :: string where
  "escalation_comment = ''Maximum iteration limit reached. Manual intervention required.''"

definition progress_comment :: "int \<Rightarrow> int \<Rightarrow> string" where
  "progress_comment iteration maximum =
     ''Received review feedback. Making adjustments (iteration '' @ str_int iteration @ ''/''
     @ str_int maximum @ '')...''"

text \<open>
  \<open>handle_review_feedback\<close>: the result (or the exception raised), the agent and the
  platform afterwards.  The counter is incremented before anything else.
\<close>

definition handle_review_feedback ::
  "settings \<Rightarrow> llm \<Rightarrow> int \<Rightarrow> string \<Rightarrow> code_agent \<times> platform \<Rightarrow> (exn + bool) \<times> code_agent \<times> platform" where
  "handle_review_feedback cfg generate pr_no feedback s =
     (let agent = (fst s)\<lparr>iteration_count := iteration_count (fst s) + 1\<rparr>;
          p = snd s
      in if iteration_count agent > max_iterations cfg
         then (case add_pr_comment p pr_no escalation_comment of
                 Inl e \<Rightarrow> (Inl e, agent, p)
               | Inr p1 \<Rightarrow> (Inr False, agent, p1))
         else (case add_pr_comment p pr_no
                      (progress_comment (iteration_count agent) (max_iterations cfg)) of
                 Inl e \<Rightarrow> (Inl e, agent, p)
               | Inr p1 \<Rightarrow>
                   (case get_pull_request p1 pr_no of
                      Inl e \<Rightarrow> (Inl e, agent, p1)
                    | Inr pr \<Rightarrow>
                        (Inr True, agent,
                         revise_files generate pr_no feedback pr (pr_files pr) p1))))"

text \<open>A sequence of feedback calls on one agent, each with its pull request and feedback.\<close>

fun feedback_calls ::
  "settings \<Rightarrow> llm \<Rightarrow> (int \<times> string) list \<Rightarrow> code_agent \<times> platform \<Rightarrow> code_agent \<times> platform" where
  "feedback_calls cfg generate [] s = s"
| "feedback_calls cfg generate (c # cs) s =
     feedback_calls cfg generate cs (snd (handle_review_feedback cfg generate (fst c) (snd c) s))"

section \<open>Scheduler (src/agents/issue_processor.py)\<close>

text \<open>
  One poll cycle.  The agents act on the outside world, whose state \<open>'w\<close> is threaded
  through the calls: \<open>process_issue\<close> returns the number of the pull request it opened
  (or \<open>None\<close>) or raises, \<open>review_pull_request\<close> returns or raises, and both leave the
  world as they changed it.  The two listings \<open>_get_new_issues\<close> and \<open>_get_pending_prs\<close>
  compare time stamps with the wall clock; their results are taken as they come: the
  numbers of the items found, or the exception raised.
\<close>

record processor =
  processed_issues :: "int set"

record cycle_results =
  issues_processed :: int
  prs_reviewed :: int
  errors :: "string list"

type_synonym 'w cycle_state = "cycle_results \<times> processor \<times> 'w"

text \<open>One turn of the loop over the new issues, and one of the loop over the pull requests.\<close>

definition issue_turn ::
  "(int \<Rightarrow> 'w \<Rightarrow> (exn + int option) \<times> 'w) \<Rightarrow> 'w cycle_state \<Rightarrow> int \<Rightarrow> 'w cycle_state" where
  "issue_turn process_issue s n =
     (case s of (results, proc, w) \<Rightarrow>
        (case process_issue n w of
           (Inl e, w1) \<Rightarrow>
             (results\<lparr>errors := errors results @ [''Issue #'' @ str_int n @ '': '' @ str_exn e]\<rparr>,
              proc, w1)
         | (Inr pr_number, w1) \<Rightarrow>
             if pr_number \<noteq> None \<and> pr_number \<noteq> Some 0
             then (results\<lparr>issues_processed := issues_processed results + 1\<rparr>,
                   proc\<lparr>processed_issues := insert n (processed_issues proc)\<rparr>, w1)
             else (results, proc, w1)))"

definition pr_turn ::
  "(int \<Rightarrow> 'w \<Rightarrow> (exn + unit) \<times> 'w) \<Rightarrow> 'w cycle_state \<Rightarrow> int \<Rightarrow> 'w cycle_state" where
  "pr_turn review_pull_request s n =
     (case s of (results, proc, w) \<Rightarrow>
        (case review_pull_request n w of
           (Inl e, w1) \<Rightarrow>
             (results\<lparr>errors := errors results @ [''PR #'' @ str_int n @ '': '' @ str_exn e]\<rparr>,
              proc, w1)
         | (Inr u, w1) \<Rightarrow> (results\<lparr>prs_reviewed := prs_reviewed results + 1\<rparr>, proc, w1)))"

definition processor_error :: "'w cycle_state \<Rightarrow> exn \<Rightarrow> 'w cycle_state" where
  "processor_error s e =
     (case s of (results, proc, w) \<Rightarrow>
        (results\<lparr>errors := errors results @ [''Processor error: '' @ str_exn e]\<rparr>, proc, w))"

definition process_pending_issues ::
  "(processor \<Rightarrow> 'w \<Rightarrow> (exn + int list) \<times> processor) \<Rightarrow> ('w \<Rightarrow> exn + int list) \<Rightarrow>
   (int \<Rightarrow> 'w \<Rightarrow> (exn + int option) \<times> 'w) \<Rightarrow> (int \<Rightarrow> 'w \<Rightarrow> (exn + unit) \<times> 'w) \<Rightarrow>
   processor \<times> 'w \<Rightarrow> 'w cycle_state" where
  "process_pending_issues get_new_issues get_pending_prs process_issue review_pull_request s =
     (let results = \<lparr>issues_processed = 0, prs_reviewed = 0, errors = []\<rparr>;
          proc = fst s; w = snd s
      in case get_new_issues proc w of
           (Inl e, proc1) \<Rightarrow> processor_error (results, proc1, w) e
         | (Inr new_issues, proc1) \<Rightarrow>
             (let s1 = foldl (issue_turn process_issue) (results, proc1, w) new_issues
              in case get_pending_prs (snd (snd s1)) of
                   Inl e \<Rightarrow> processor_error s1 e
                 | Inr pending_prs \<Rightarrow> foldl (pr_turn review_pull_request) s1 pending_prs))"

section \<open>Response interpreter\<close>

text \<open>
  \<open>re.search(r'\{.*\}', response, re.DOTALL)\<close>: the match starts at the first opening
  brace and, the star being greedy and the dot matching every character, ends at the
  last closing brace after it; there is no match when no closing brace follows the first
  opening one.
\<close>

definition search_braces :: "string \<Rightarrow> string option" where
  "search_braces response =
     (let from_open = dropWhile (\<lambda>c. c \<noteq> CHR ''{'') response
      in if from_open = [] then None
         else let inner = rev (dropWhile (\<lambda>c. c \<noteq> CHR ''}'') (rev (tl from_open)))
              in if inner = [] then None else Some (CHR ''{'' # inner))"

subsection \<open>Review of a pull request (src/agents/reviewer_agent.py)\<close>

definition create_fallback_review :: "string \<Rightarrow> json" where
  "create_fallback_review response =
     (let status = (if str_in ''approved'' (py_lower response) then ''approved''
                    else if str_in ''changes'' (py_lower response) then ''changes_requested''
                    else ''needs_work'')
      in JObj [(''summary'', JStr (if length response > 500 then take 500 response @ ''...''
                                    else response)),
               (''status'', JStr status),
               (''issues_found'', JArr []),
               (''positive_feedback'', JArr []),
               (''suggestions'', JArr [JStr ''Could not parse detailed review. Please review manually.'']),
               (''overall_score'', JInt 50),
               (''meets_requirements'', JBool False)])"

definition review_failed :: json where
  "review_failed =
     JObj [(''summary'', JStr ''Review failed due to technical error.''),
           (''status'', JStr ''needs_work''),
           (''issues_found'', JArr []),
           (''positive_feedback'', JArr []),
           (''suggestions'', JArr [JStr ''Please check the implementation manually.'']),
           (''overall_score'', JInt 0),
           (''meets_requirements'', JBool False)]"

text \<open>
  \<open>_perform_llm_review\<close>, from the answer of the language model (the generated text, or
  the exception the call raised).  The decoder \<open>json.loads\<close> belongs to the Python
  library and is an argument \<open>loads\<close>: it returns the decoded value or raises.  Only
  \<open>JSONDecodeError\<close> is caught next to the call; every other exception reaches the outer
  handler.
\<close>

definition perform_llm_review :: "(string \<Rightarrow> exn + json) \<Rightarrow> exn + string \<Rightarrow> json" where
  "perform_llm_review loads generated =
     (case generated of
        Inl e \<Rightarrow> review_failed
      | Inr response \<Rightarrow>
          (case search_braces response of
             None \<Rightarrow> create_fallback_review response
           | Some matched \<Rightarrow>
               (case loads matched of
                  Inr review \<Rightarrow> review
                | Inl (JSONDecodeError m) \<Rightarrow> create_fallback_review response
                | Inl e \<Rightarrow> review_failed)))"

subsection \<open>Analysis of an issue (src/agents/code_agent.py)\<close>

definition fallback_analysis :: "issue \<Rightarrow> json" where
  "fallback_analysis issue =
     JObj [(''analysis'',
            JObj [(''requirement_summary'', JStr (issue_title issue)),
                  (''files_to_modify'', JArr []),
                  (''expected_behavior'',
                     JStr (case issue_body issue of
                             None \<Rightarrow> []
                           | Some body \<Rightarrow> if body \<noteq> [] then take 200 body else [])),
                  (''edge_cases'', JArr []),
                  (''complexity'', JStr ''medium'')])]"

text \<open>\<open>v.lower()\<close> on any object: only a string has it.\<close>

fun json_lower :: "json \<Rightarrow> exn + string" where
  "json_lower (JStr s) = Inr (py_lower s)"
| "json_lower v = Inl (no_attribute v ''lower'')"

text \<open>\<open>analysis['analysis']['files_to_modify'] = files\<close>.\<close>

definition set_files_to_modify :: "json \<Rightarrow> json \<Rightarrow> exn + json" where
  "set_files_to_modify analysis files =
     (case analysis of
        JObj d \<Rightarrow>
          (case map_of d ''analysis'' of
             None \<Rightarrow> Inl (KeyError ([CHR 0x27] @ ''analysis'' @ [CHR 0x27]))
           | Some (JObj inner) \<Rightarrow>
               Inr (JObj (dict_set d ''analysis'' (JObj (dict_set inner ''files_to_modify'' files))))
           | Some v \<Rightarrow> Inl (TypeError ([CHR 0x27] @ type_name v @ [CHR 0x27]
                                         @ '' object does not support item assignment'')))
      | v \<Rightarrow> Inl (TypeError ([CHR 0x27] @ type_name v @ [CHR 0x27] @ '' object is not subscriptable'')))"

text \<open>
  \<open>_analyze_issue\<close>, from the answer of the language model; \<open>tree_result\<close> is what
  reading the repository tree gives when the resolver is called.  An exception of the
  model call, and any exception other than \<open>JSONDecodeError\<close> raised while the decoded
  analysis is read, leaves the function.
\<close>

definition analyze_issue ::
  "(string \<Rightarrow> exn + json) \<Rightarrow> exn + string list \<Rightarrow> issue \<Rightarrow> exn + string \<Rightarrow> exn + json" where
  "analyze_issue loads tree_result issue generated =
     exn_bind generated (\<lambda>response.
       case search_braces response of
         None \<Rightarrow> Inr (fallback_analysis issue)
       | Some matched \<Rightarrow>
           (case loads matched of
              Inl (JSONDecodeError m) \<Rightarrow> Inr (fallback_analysis issue)
            | Inl e \<Rightarrow> Inl e
            | Inr analysis \<Rightarrow>
                exn_bind (py_get analysis ''analysis'' (JObj [])) (\<lambda>a.
                exn_bind (py_get a ''requirement_summary'' (JStr [])) (\<lambda>summary.
                exn_bind (json_lower summary) (\<lambda>requirement.
                exn_bind (py_get analysis ''analysis'' (JObj [])) (\<lambda>a.
                exn_bind (py_get a ''files_to_modify'' JNull) (\<lambda>files.
                  if \<not> truthy files
                  then set_files_to_modify analysis
                         (JArr (map JStr (discover_relevant_files tree_result requirement)))
                  else Inr analysis)))))))"

subsection \<open>A JSON decoder for closed examples\<close>

text \<open>
  The theorems about the interpreter hold for every decoder \<open>loads\<close>.  To evaluate the
  interpreter on a concrete text a decoder is needed; \<open>json_loads\<close> decodes the JSON
  grammar (RFC 8259) as \<open>json.loads\<close> does, on the fragment with integer numbers and
  the two-character escapes in strings.  A number with a fraction or an exponent, the
  literals \<open>NaN\<close> and \<open>Infinity\<close> and a \<open>\u\<close> escape are outside this fragment.
  The recursion is bounded by fuel; \<open>json_loads\<close> gives one more than the length of the
  text, and every recursive call follows the reading of a character.
\<close>

definition json_ws :: string where
  "json_ws = [CHR 0x20, CHR 0x09, CHR 0x0A, CHR 0x0D]"

definition skip_ws :: "string \<Rightarrow> string" where
  "skip_ws s = dropWhile (\<lambda>c. c \<in> set json_ws) s"

definition unescape :: "char \<Rightarrow> char option" where
  "unescape c =
     (if c = CHR 0x22 then Some (CHR 0x22)
      else if c = CHR 0x5C then Some (CHR 0x5C)
      else if c = CHR ''/'' then Some (CHR ''/'')
      else if c = CHR ''b'' then Some (CHR 0x08)
      else if c = CHR ''f'' then Some (CHR 0x0C)
      else if c = CHR ''n'' then Some (CHR 0x0A)
      else if c = CHR ''r'' then Some (CHR 0x0D)
      else if c = CHR ''t'' then Some (CHR 0x09)
      else None)"

text \<open>The characters of a string after its opening quote, and the text after the closing one.\<close>

fun parse_string_body :: "string \<Rightarrow> (string \<times> string) option" where
  "parse_string_body [] = None"
| "parse_string_body [c] = (if c = CHR 0x22 then Some ([], []) else None)"
| "parse_string_body (c # d # cs) =
     (if c = CHR 0x22 then Some ([], d # cs)
      else if c = CHR 0x5C
      then (case unescape d of
              None \<Rightarrow> None
            | Some ch \<Rightarrow> map_option (\<lambda>r. (ch # fst r, snd r)) (parse_string_body cs))
      else if (of_char c :: nat) < 32 then None
      else map_option (\<lambda>r. (c # fst r, snd r)) (parse_string_body (d # cs)))"

definition is_digit :: "char \<Rightarrow> bool" where
  "is_digit c = (48 \<le> (of_char c :: nat) \<and> (of_char c :: nat) \<le> 57)"

definition digits_value :: "string \<Rightarrow> int" where
  "digits_value ds = foldl (\<lambda>a c. 10 * a + (int (of_char c) - 48)) 0 ds"

definition parse_number :: "string \<Rightarrow> (json \<times> string) option" where
  "parse_number s =
     (let negative = (s \<noteq> [] \<and> hd s = CHR ''-'');
          s1 = (if negative then tl s else s);
          ds = takeWhile is_digit s1;
          rest = dropWhile is_digit s1
      in if ds = [] then None
         else if length ds > 1 \<and> hd ds = CHR ''0'' then None
         else if rest \<noteq> [] \<and> hd rest \<in> {CHR ''.'', CHR ''e'', CHR ''E''} then None
         else Some (JInt (if negative then - digits_value ds else digits_value ds), rest))"

fun parse_value :: "nat \<Rightarrow> string \<Rightarrow> (json \<times> string) option"
  and parse_elements :: "nat \<Rightarrow> string \<Rightarrow> json list \<Rightarrow> (json \<times> string) option"
  and parse_members :: "nat \<Rightarrow> string \<Rightarrow> pydict \<Rightarrow> (json \<times> string) option" where
  "parse_value 0 s = None"
| "parse_value (Suc n) s =
     (case s of
        [] \<Rightarrow> None
      | c # cs \<Rightarrow>
          if c = CHR 0x22
          then map_option (\<lambda>r. (JStr (fst r), snd r)) (parse_string_body cs)
          else if c = CHR ''{''
          then (case skip_ws cs of
                  [] \<Rightarrow> None
                | d # r \<Rightarrow> if d = CHR ''}'' then Some (JObj [], r)
                           else parse_members n (d # r) [])
          else if c = CHR ''[''
          then (case skip_ws cs of
                  [] \<Rightarrow> None
                | d # r \<Rightarrow> if d = CHR '']'' then Some (JArr [], r)
                           else parse_elements n (d # r) [])
          else if prefix ''null'' s then Some (JNull, drop 4 s)
          else if prefix ''true'' s then Some (JBool True, drop 4 s)
          else if prefix ''false'' s then Some (JBool False, drop 5 s)
          else parse_number s)"
| "parse_elements 0 s acc = None"
| "parse_elements (Suc n) s acc =
     (case parse_value n s of
        None \<Rightarrow> None
      | Some (v, r) \<Rightarrow>
          (case skip_ws r of
             [] \<Rightarrow> None
           | d # r1 \<Rightarrow>
               if d = CHR '','' then parse_elements n (skip_ws r1) (acc @ [v])
               else if d = CHR '']'' then Some (JArr (acc @ [v]), r1)
               else None))"
| "parse_members 0 s acc = None"
| "parse_members (Suc n) s acc =
     (case s of
        [] \<Rightarrow> None
      | q # cs \<Rightarrow>
          if q \<noteq> CHR 0x22 then None
          else (case parse_string_body cs of
                  None \<Rightarrow> None
                | Some (k, r) \<Rightarrow>
                    (case skip_ws r of
                       [] \<Rightarrow> None
                     | colon # r1 \<Rightarrow>
                         if colon \<noteq> CHR '':'' then None
                         else (case parse_value n (skip_ws r1) of
                                 None \<Rightarrow> None
                               | Some (v, r2) \<Rightarrow>
                                   (case skip_ws r2 of
                                      [] \<Rightarrow> None
                                    | d # r3 \<Rightarrow>
                                        if d = CHR '','' then parse_members n (skip_ws r3) (dict_set acc k v)
                                        else if d = CHR ''}'' then Some (JObj (dict_set acc k v), r3)
                                        else None)))))"

definition json_loads :: "string \<Rightarrow> exn + json" where
  "json_loads s =
     (case parse_value (Suc (length s)) (skip_ws s) of
        None \<Rightarrow> Inl (JSONDecodeError ''Expecting value'')
      | Some (v, r) \<Rightarrow> if skip_ws r = [] then Inr v else Inl (JSONDecodeError ''Extra data''))"

section \<open>Notions used in the statements\<close>



fun has_slice :: "json \<Rightarrow> bool" where
  "has_slice (JArr xs) = True"
| "has_slice (JStr s) = True"
| "has_slice v = False"


fun row_ok :: "json \<Rightarrow> bool" where
  "row_ok (JObj d) =
     (has_slice (dict_get d ''file'' (JStr ''unknown''))
      \<and> has_slice (dict_get d ''description'' (JStr [])))"
| "row_ok v = False"




fun title_from :: "bool \<Rightarrow> string \<Rightarrow> string" where
  "title_from inside [] = []"
| "title_from inside (c # cs) =
     (let n = (of_char c :: nat)
      in if 97 \<le> n \<and> n \<le> 122
         then (if inside then c else char_of (n - 32)) # title_from True cs
         else if 65 \<le> n \<and> n \<le> 90
         then (if inside then char_of (n + 32) else c) # title_from True cs
         else c # title_from False cs)"





definition is_config_candidate :: "string \<Rightarrow> bool" where
  "is_config_candidate path =
     ((endswith path ''.json'' \<or> endswith path ''.yaml'' \<or> endswith path ''.yml'')
      \<and> \<not> list_ex (\<lambda>exclude. str_in exclude path) excluded_parts)"

text \<open>
  What the revision writes for a changed file: the answer of the model, stripped, when
  the file has content on the branch, the model answers, and the stripped answer differs
  from that content.  In every other case the file is left alone.
\<close>

definition revision_of :: "llm \<Rightarrow> string \<Rightarrow> pull_request \<Rightarrow> platform \<Rightarrow> string \<Rightarrow> string option" where
  "revision_of generate feedback pr p file_path =
     (case contents p (pr_head_ref pr, file_path) of
        None \<Rightarrow> None
      | Some current \<Rightarrow>
          if current = [] then None
          else (case generate file_path current feedback (pr_body pr) of
                  Inl e \<Rightarrow> None
                | Inr response \<Rightarrow>
                    if py_strip whitespace response \<noteq> current
                    then Some (py_strip whitespace response) else None))"

text \<open>
  The file contents and the commits that the revision of the changed files of a pull
  request leaves, from the platform before it.
\<close>

definition revised_contents ::
  "llm \<Rightarrow> string \<Rightarrow> pull_request \<Rightarrow> platform \<Rightarrow> string \<times> string \<Rightarrow> string option" where
  "revised_contents generate feedback pr p =
     (\<lambda>(ref, path).
        if ref = pr_head_ref pr \<and> path \<in> set (pr_files pr)
        then (case revision_of generate feedback pr p path of
                Some new_content \<Rightarrow> Some new_content
              | None \<Rightarrow> contents p (ref, path))
        else contents p (ref, path))"

definition revision_commits ::
  "llm \<Rightarrow> int \<Rightarrow> string \<Rightarrow> pull_request \<Rightarrow> platform \<Rightarrow> (string \<times> string \<times> string) list" where
  "revision_commits generate pr_no feedback pr p =
     map (\<lambda>path. (pr_head_ref pr, path, ''Apply review feedback for PR #'' @ str_int pr_no))
       (filter (\<lambda>path. revision_of generate feedback pr p path \<noteq> None) (pr_files pr))"

definition example_pr :: pull_request where
  "example_pr = \<lparr>pr_body = ''Implements #3'', pr_head_ref = ''feature'', pr_files = [''a.py''],
                 pr_labels = {}, pr_comments = []\<rparr>"

definition example_platform :: platform where
  "example_platform = \<lparr>pulls = [1 \<mapsto> example_pr],
                        contents = [(''feature'', ''a.py'') \<mapsto> ''old''], commit_log = []\<rparr>"

text \<open>The world after the items of a list have been handled, failed or not.\<close>

definition world_after :: "(int \<Rightarrow> 'w \<Rightarrow> 'r \<times> 'w) \<Rightarrow> 'w \<Rightarrow> int list \<Rightarrow> 'w" where
  "world_after handle w items = foldl (\<lambda>w n. snd (handle n w)) w items"

definition example_process_issue :: "int \<Rightarrow> int list \<Rightarrow> (exn + int option) \<times> int list" where
  "example_process_issue n w =
     (if n = 2 then (Inl (Exception ''boom''), w @ [n]) else (Inr (Some (100 + n)), w @ [n]))"

definition example_review :: "int \<Rightarrow> int list \<Rightarrow> (exn + unit) \<times> int list" where
  "example_review n w = (if n = 5 then (Inl (Exception ''bang''), w @ [n]) else (Inr (), w @ [n]))"

section \<open>Properties\<close>

lemmas eval_simps = str_in_def endswith_def startswith_def sublist_code prefix_code suffix_to_prefix
  any_keyword_def

subsection \<open>CI status aggregation\<close>

lemma foldl_ci_step_success:
  "ci_success (foldl ci_step r sts) \<longleftrightarrow> ci_success r \<and> (\<forall>s \<in> set sts. cs_state s = ''success'')"
  by (induction sts arbitrary: r) (auto simp: ci_step_def Let_def)

text \<open>
  C10.  A pull request without commits has \<open>success = False\<close>; one whose latest commit
  carries no status entry has \<open>success = True\<close>, and the decision for an approved review
  that meets the requirements is then \<open>merge\<close>; with at least one commit, \<open>success\<close> holds
  exactly when every status entry of the latest commit has state \<open>success\<close>.
\<close>

theorem get_ci_status_success:
  "\<not> ci_success (get_ci_status [])
   \<and> (commits \<noteq> [] \<and> statuses (last commits) = [] \<longrightarrow>
        ci_success (get_ci_status commits)
        \<and> determine_next_action [(''meets_requirements'', JBool True), (''status'', JStr ''approved'')]
            (get_ci_status commits) = ''merge'')
   \<and> (commits \<noteq> [] \<longrightarrow>
        (ci_success (get_ci_status commits) \<longleftrightarrow>
           (\<forall>s \<in> set (statuses (last commits)). cs_state s = ''success'')))"
  by (simp add: get_ci_status_def foldl_ci_step_success determine_next_action_def dict_get_def)

theorem get_ci_status_success_witness:
  "[\<lparr>sha = ''a1'', statuses = []\<rparr>] \<noteq> []
   \<and> statuses (last [\<lparr>sha = ''a1'', statuses = []\<rparr>]) = []
   \<and> ci_success (get_ci_status [\<lparr>sha = ''a1'', statuses = []\<rparr>])
   \<and> determine_next_action [(''meets_requirements'', JBool True), (''status'', JStr ''approved'')]
        (get_ci_status [\<lparr>sha = ''a1'', statuses = []\<rparr>]) = ''merge''
   \<and> \<not> ci_success (get_ci_status
        [\<lparr>sha = ''a1'', statuses = []\<rparr>,
         \<lparr>sha = ''b2'', statuses =
            [\<lparr>cs_context = ''ci/build'', cs_state = ''success'', cs_description = None, cs_target_url = None\<rparr>,
             \<lparr>cs_context = ''ci/test'', cs_state = ''failure'', cs_description = None, cs_target_url = None\<rparr>]\<rparr>])"
  using get_ci_status_success [of "[\<lparr>sha = ''a1'', statuses = []\<rparr>]"]
    get_ci_status_success [of
        "[\<lparr>sha = ''a1'', statuses = []\<rparr>,
         \<lparr>sha = ''b2'', statuses =
            [\<lparr>cs_context = ''ci/build'', cs_state = ''success'', cs_description = None, cs_target_url = None\<rparr>,
             \<lparr>cs_context = ''ci/test'', cs_state = ''failure'', cs_description = None, cs_target_url = None\<rparr>]\<rparr>]"]
  by simp

subsection \<open>Review decision\<close>

text \<open>
  C1.  The decision follows the table: all three merge conditions give \<open>merge\<close>; a failed
  CI gives \<open>fix_ci\<close>; a successful CI with a review that does not meet the requirements
  or is not approved gives \<open>request_changes\<close>; and on every input the decision is the
  one the table computes when its rows are tried in order, the merge row first and
  \<open>wait\<close> last.
\<close>

theorem determine_next_action_table:
  "(truthy (dict_get review ''meets_requirements'' (JBool False))
      \<and> dict_get review ''status'' (JStr ''needs_work'') = JStr ''approved''
      \<and> ci_success ci \<longrightarrow> determine_next_action review ci = ''merge'')
   \<and> (\<not> ci_success ci \<longrightarrow> determine_next_action review ci = ''fix_ci'')
   \<and> (ci_success ci \<and> (\<not> truthy (dict_get review ''meets_requirements'' (JBool False))
                      \<or> dict_get review ''status'' (JStr ''needs_work'') \<noteq> JStr ''approved'')
        \<longrightarrow> determine_next_action review ci = ''request_changes'')
   \<and> determine_next_action review ci =
       decision_table (truthy (dict_get review ''meets_requirements'' (JBool False)))
         (dict_get review ''status'' (JStr ''needs_work'')) (ci_success ci)"
  by (auto simp: determine_next_action_def decision_table_def Let_def)

theorem determine_next_action_table_witness:
  "determine_next_action [(''meets_requirements'', JBool True), (''status'', JStr ''approved'')]
      \<lparr>ci_success = True, ci_jobs = [], ci_details = []\<rparr> = ''merge''
   \<and> determine_next_action [(''meets_requirements'', JBool True), (''status'', JStr ''approved'')]
      \<lparr>ci_success = False, ci_jobs = [], ci_details = []\<rparr> = ''fix_ci''
   \<and> determine_next_action [(''meets_requirements'', JBool False), (''status'', JStr ''approved'')]
      \<lparr>ci_success = True, ci_jobs = [], ci_details = []\<rparr> = ''request_changes''
   \<and> determine_next_action [(''meets_requirements'', JBool True), (''status'', JStr ''changes_requested'')]
      \<lparr>ci_success = True, ci_jobs = [], ci_details = []\<rparr> = ''request_changes''"
  using
    determine_next_action_table [of "[(''meets_requirements'', JBool True), (''status'', JStr ''approved'')]"
      "\<lparr>ci_success = True, ci_jobs = [], ci_details = []\<rparr>"]
    determine_next_action_table [of "[(''meets_requirements'', JBool True), (''status'', JStr ''approved'')]"
      "\<lparr>ci_success = False, ci_jobs = [], ci_details = []\<rparr>"]
    determine_next_action_table [of "[(''meets_requirements'', JBool False), (''status'', JStr ''approved'')]"
      "\<lparr>ci_success = True, ci_jobs = [], ci_details = []\<rparr>"]
    determine_next_action_table [of "[(''meets_requirements'', JBool True), (''status'', JStr ''changes_requested'')]"
      "\<lparr>ci_success = True, ci_jobs = [], ci_details = []\<rparr>"]
  by (simp add: dict_get_def)

text \<open>
  C9.  Whatever the review dictionary holds (either key present or absent, any value)
  and whatever the CI outcome, the decision is \<open>merge\<close>, \<open>fix_ci\<close> or
  \<open>request_changes\<close>; it is never \<open>wait\<close>.
\<close>

theorem determine_next_action_never_wait:
  "determine_next_action review ci \<in> {''merge'', ''fix_ci'', ''request_changes''}
   \<and> determine_next_action review ci \<noteq> ''wait''"
  by (auto simp: determine_next_action_def Let_def)

theorem determine_next_action_never_wait_witness:
  "determine_next_action [] \<lparr>ci_success = True, ci_jobs = [], ci_details = []\<rparr>
     \<in> {''merge'', ''fix_ci'', ''request_changes''}
   \<and> determine_next_action [] \<lparr>ci_success = True, ci_jobs = [], ci_details = []\<rparr> \<noteq> ''wait''"
  by (rule determine_next_action_never_wait)

subsection \<open>Label groups\<close>






lemma char_entry_not_ok: "\<not> list_all row_ok (map (\<lambda>c. JStr [c]) (c # cs))"
  by simp









lemma example_title: "title_from False ''approved'' = ''Approved''"
  by (simp add: Let_def) (simp add: char_of_def bit_Suc_0_iff)









subsection \<open>File relevance resolver\<close>

lemma str_in_trans: "str_in a b \<Longrightarrow> str_in b c \<Longrightarrow> str_in a c"
  unfolding str_in_def by (rule sublist_order.order.trans)

lemma config_in_phrase: "str_in ''config'' ''add a configuration loader in yaml''"
  by (simp add: eval_simps)

lemma config_patterns_match:
  "pattern_matches ''*.json'' p = endswith p ''.json''"
  "pattern_matches ''*.yaml'' p = endswith p ''.yaml''"
  "pattern_matches ''*.yml'' p = endswith p ''.yml''"
  by (simp_all add: pattern_matches_def str_in_def startswith_def sublist_code prefix_code)

lemma config_patterns:
  assumes "str_in ''add a configuration loader in yaml'' requirement"
    and "\<not> any_keyword [''python'', ''.py'', ''py file''] requirement"
    and "\<not> any_keyword [''documentation'', ''readme'', ''.md'', ''markdown''] requirement"
    and "\<not> any_keyword [''test'', ''tests'', ''testing''] requirement"
  shows "determine_file_patterns requirement = [''*.json'', ''*.yaml'', ''*.yml'']"
proof -
  have "str_in ''config'' requirement"
    using config_in_phrase assms(1) by (rule str_in_trans)
  then have "any_keyword [''config'', ''configuration'', ''.json'', ''.yaml'', ''.yml''] requirement"
    by (simp add: any_keyword_def)
  with assms(2-4) show ?thesis
    by (simp add: determine_file_patterns_def)
qed

lemma discover_config:
  assumes "determine_file_patterns requirement = [''*.json'', ''*.yaml'', ''*.yml'']"
  shows "discover_relevant_files (Inr tree) requirement = take 50 (filter is_config_candidate tree)"
proof -
  have "(\<lambda>path. list_ex (\<lambda>pattern. pattern_matches pattern path) [''*.json'', ''*.yaml'', ''*.yml'']
                \<and> \<not> list_ex (\<lambda>exclude. str_in exclude path) excluded_parts) = is_config_candidate"
    by (rule ext) (simp add: is_config_candidate_def config_patterns_match)
  then have "discover_relevant_files (Inr tree) requirement
      = (if tree = [] then [] else take 50 (filter is_config_candidate tree))"
    by (simp only: discover_relevant_files_def assms Let_def sum.case)
  then show ?thesis by simp
qed

lemma excluded_parts_mem: "''node_modules/'' \<in> set excluded_parts" "''.git'' \<in> set excluded_parts"
  by (simp_all add: excluded_parts_def)

text \<open>
  C6.  For a requirement that mentions \<open>add a configuration loader in yaml\<close> and has no
  keyword of the Python, documentation and test groups, and for every tree, the resolver
  returns the first 50 tree entries, in tree order, that end in \<open>.json\<close>, \<open>.yaml\<close> or
  \<open>.yml\<close> and contain none of the excluded parts; so every returned path is in the tree,
  has one of the three endings and contains neither \<open>node_modules/\<close> nor \<open>.git\<close>.  When
  the tree cannot be read the result is empty.
\<close>

theorem config_requirement_candidates:
  assumes "str_in ''add a configuration loader in yaml'' requirement"
    and "\<not> any_keyword [''python'', ''.py'', ''py file''] requirement"
    and "\<not> any_keyword [''documentation'', ''readme'', ''.md'', ''markdown''] requirement"
    and "\<not> any_keyword [''test'', ''tests'', ''testing''] requirement"
  shows "discover_relevant_files (Inr tree) requirement = take 50 (filter is_config_candidate tree)
    \<and> subseq (discover_relevant_files (Inr tree) requirement) tree
    \<and> length (discover_relevant_files (Inr tree) requirement) \<le> 50
    \<and> (\<forall>path \<in> set (discover_relevant_files (Inr tree) requirement).
          path \<in> set tree
          \<and> (endswith path ''.json'' \<or> endswith path ''.yaml'' \<or> endswith path ''.yml'')
          \<and> \<not> str_in ''node_modules/'' path \<and> \<not> str_in ''.git'' path)
    \<and> discover_relevant_files (Inl e) requirement = []"
proof -
  let ?r = "discover_relevant_files (Inr tree) requirement"
  have r: "?r = take 50 (filter is_config_candidate tree)"
    using config_patterns [OF assms] by (rule discover_config)
  have sub: "subseq ?r tree"
  proof -
    have "subseq (take 50 (filter is_config_candidate tree)) (filter is_config_candidate tree)"
      by (metis append_take_drop_id prefix_def prefix_imp_subseq)
    also have "subseq (filter is_config_candidate tree) tree" by simp
    finally show ?thesis by (simp only: r)
  qed
  have len: "length ?r \<le> 50" by (simp add: r)
  have mem: "\<forall>path \<in> set ?r. path \<in> set tree
          \<and> (endswith path ''.json'' \<or> endswith path ''.yaml'' \<or> endswith path ''.yml'')
          \<and> \<not> str_in ''node_modules/'' path \<and> \<not> str_in ''.git'' path"
  proof
    fix path assume "path \<in> set ?r"
    then have "path \<in> set (filter is_config_candidate tree)"
      unfolding r by (rule in_set_takeD)
    then have "path \<in> set tree" and c: "is_config_candidate path" by simp_all
    from c have "\<forall>x \<in> set excluded_parts. \<not> str_in x path"
      by (simp add: is_config_candidate_def list_ex_iff)
    with excluded_parts_mem have "\<not> str_in ''node_modules/'' path" "\<not> str_in ''.git'' path"
      by blast+
    with c \<open>path \<in> set tree\<close>
    show "path \<in> set tree
          \<and> (endswith path ''.json'' \<or> endswith path ''.yaml'' \<or> endswith path ''.yml'')
          \<and> \<not> str_in ''node_modules/'' path \<and> \<not> str_in ''.git'' path"
      by (simp add: is_config_candidate_def)
  qed
  have "discover_relevant_files (Inl e) requirement = []"
    by (simp add: discover_relevant_files_def)
  with r sub len mem show ?thesis by blast
qed

theorem config_requirement_candidates_witness:
  "str_in ''add a configuration loader in yaml'' ''add a configuration loader in yaml''
   \<and> \<not> any_keyword [''python'', ''.py'', ''py file''] ''add a configuration loader in yaml''
   \<and> \<not> any_keyword [''documentation'', ''readme'', ''.md'', ''markdown'']
         ''add a configuration loader in yaml''
   \<and> \<not> any_keyword [''test'', ''tests'', ''testing''] ''add a configuration loader in yaml''
   \<and> discover_relevant_files
        (Inr [''conf/app.yaml'', ''node_modules/x/package.json'', ''.github/w.yml'', ''a.py'', ''b.json''])
        ''add a configuration loader in yaml'' = [''conf/app.yaml'', ''b.json'']"
proof -
  have h1: "str_in ''add a configuration loader in yaml'' ''add a configuration loader in yaml''"
    by (simp add: str_in_def)
  have h2: "\<not> any_keyword [''python'', ''.py'', ''py file''] ''add a configuration loader in yaml''"
    by (simp add: eval_simps)
  have h3: "\<not> any_keyword [''documentation'', ''readme'', ''.md'', ''markdown'']
         ''add a configuration loader in yaml''"
    by (simp add: eval_simps)
  have h4: "\<not> any_keyword [''test'', ''tests'', ''testing''] ''add a configuration loader in yaml''"
    by (simp add: eval_simps)
  have "take 50 (filter is_config_candidate
          [''conf/app.yaml'', ''node_modules/x/package.json'', ''.github/w.yml'', ''a.py'', ''b.json''])
        = [''conf/app.yaml'', ''b.json'']"
    by (simp add: is_config_candidate_def excluded_parts_def eval_simps)
  with config_requirement_candidates [OF h1 h2 h3 h4,
      of "[''conf/app.yaml'', ''node_modules/x/package.json'', ''.github/w.yml'', ''a.py'', ''b.json'']"]
    h1 h2 h3 h4
  show ?thesis by simp
qed

text \<open>The test pattern matches only a path that itself contains an asterisk.\<close>

lemma test_pattern_needs_star:
  assumes "CHR ''*'' \<notin> set path"
  shows "\<not> pattern_matches ''*test*.py'' path"
proof
  assume "pattern_matches ''*test*.py'' path"
  then have "suffix ''test*.py'' path \<or> sublist ''test*.p'' path"
    by (simp add: pattern_matches_def eval_simps split: if_splits)
  then have "set ''test*.py'' \<subseteq> set path \<or> set ''test*.p'' \<subseteq> set path"
    using set_mono_suffix set_mono_sublist by blast
  then have "CHR ''*'' \<in> set path" by auto
  with assms show False by simp
qed

text \<open>
  C7.  The requirement \<open>add unit test\<close> contains the keyword \<open>test\<close> and yields the one
  pattern \<open>*test*.py\<close>; the tree entry \<open>tests/test_app.py\<close> contains \<open>test\<close>, ends in
  \<open>.py\<close> and is in no excluded directory, yet the pattern does not match it, and the
  resolver returns no candidate for it.
\<close>

theorem test_pattern_misses_test_file:
  "str_in ''test'' ''add unit test''
   \<and> determine_file_patterns ''add unit test'' = [''*test*.py'']
   \<and> str_in ''test'' ''tests/test_app.py'' \<and> endswith ''tests/test_app.py'' ''.py''
   \<and> \<not> list_ex (\<lambda>exclude. str_in exclude ''tests/test_app.py'') excluded_parts
   \<and> \<not> pattern_matches ''*test*.py'' ''tests/test_app.py''
   \<and> discover_relevant_files (Inr [''tests/test_app.py'']) ''add unit test'' = []"
  by (simp add: determine_file_patterns_def discover_relevant_files_def pattern_matches_def
      excluded_parts_def eval_simps)

subsection \<open>Branch name\<close>

lemma sub_char_hyphen_iff:
  "((if is_branch_char c then c else CHR ''-'') = CHR ''-'') = (\<not> is_alnum c)"
  by (auto simp: is_alnum_def)

lemma sub_hyphen_runs_collapse:
  "sub_hyphen_runs (sub_non_branch_chars s) = collapse_runs s"
proof (induction s rule: collapse_runs.induct)
  case 1
  show ?case by (simp add: sub_non_branch_chars_def)
next
  case (2 c cs)
  let ?f = "\<lambda>c. if is_branch_char c then c else CHR ''-''"
  have dw: "dropWhile (\<lambda>d. d = CHR ''-'') (map ?f cs) = map ?f (dropWhile (\<lambda>d. \<not> is_alnum d) cs)"
    by (simp add: dropWhile_map comp_def sub_char_hyphen_iff)
  show ?case
  proof (cases "is_alnum c")
    case True
    then have "?f c = c" "c \<noteq> CHR ''-''" by (simp_all add: is_alnum_def)
    with True 2(1) show ?thesis
      by (simp add: sub_non_branch_chars_def)
  next
    case False
    then have "?f c = CHR ''-''" by (simp add: sub_char_hyphen_iff)
    with False 2(2) dw show ?thesis
      by (simp add: sub_non_branch_chars_def)
  qed
qed

lemma branch_name_of_one_pass: "branch_name_of cfg n title = one_pass_branch_name cfg n title"
  by (simp add: branch_name_of_def one_pass_branch_name_def Let_def sub_hyphen_runs_collapse)

lemma plan_branch_name_eq:
  "create_implementation_plan cfg n title a = Inr p \<Longrightarrow> plan_branch_name p = branch_name_of cfg n title"
  by (auto simp: create_implementation_plan_def exn_bind_def Let_def split: sum.splits)

text \<open>
  C4 (amended).  The branch name is a function of the settings, the issue number and the
  title alone: it is the name obtained by lower-casing the title, turning every maximal
  run of characters other than letters and digits (hyphens included) into one hyphen,
  trimming the hyphens at both ends, keeping 50 characters, putting the configured prefix
  followed by \<open>issue-\<close>, the issue number and a hyphen in front, and keeping 100
  characters.  It is never longer than 100 characters, and two plans made for the same
  title and number carry the same name whatever the analysis is.
\<close>

theorem branch_name_derivation:
  "branch_name_of cfg n title = one_pass_branch_name cfg n title
   \<and> length (branch_name_of cfg n title) \<le> 100
   \<and> (create_implementation_plan cfg n title a1 = Inr p1
        \<and> create_implementation_plan cfg n title a2 = Inr p2
      \<longrightarrow> plan_branch_name p1 = branch_name_of cfg n title
          \<and> plan_branch_name p2 = plan_branch_name p1)"
proof -
  have "length (branch_name_of cfg n title) \<le> 100"
    by (simp add: branch_name_of_def Let_def)
  then show ?thesis
    using branch_name_of_one_pass plan_branch_name_eq by auto
qed

lemma example_branch_name:
  "branch_name_of \<lparr>branch_prefix = ''agent/'', max_iterations = 5\<rparr> 42 ''Fix bug - crash on Start!''
     = ''agent/issue-42-fix-bug-crash-on-start''"
  by (simp add: branch_name_of_def Let_def sub_non_branch_chars_def is_branch_char_def
      py_lower_def lower_char_def char_of_def bit_Suc_0_iff py_strip_def
      str_int_def str_nat.simps digit_char_def)

text \<open>
  Read word for word, the stated steps keep the hyphens of the title and collapse only
  the runs of other characters, and they put the prefix alone in front.  For the title
  \<open>a - b\<close> and issue 42 the source gives \<open>agent/issue-42-a-b\<close>; the stated steps give
  \<open>agent/a---b\<close>, and \<open>agent/issue-42-a---b\<close> once the issue number is put in.
\<close>

theorem stated_steps_counterexample:
  "branch_name_of \<lparr>branch_prefix = ''agent/'', max_iterations = 5\<rparr> 42 ''a - b''
     = ''agent/issue-42-a-b''
   \<and> stated_branch_name \<lparr>branch_prefix = ''agent/'', max_iterations = 5\<rparr> ''a - b''
     = ''agent/a---b''
   \<and> sub_hyphen_runs (sub_non_branch_chars (py_lower ''a - b'')) = ''a-b''
   \<and> stated_collapse (py_lower ''a - b'') = ''a---b''
   \<and> take 100 (''agent/'' @ ''issue-'' @ str_int 42 @ ''-''
        @ take 50 (py_strip ''-'' (stated_collapse (py_lower ''a - b''))))
     = ''agent/issue-42-a---b''" 
  by (simp add: branch_name_of_def stated_branch_name_def Let_def sub_non_branch_chars_def
      is_branch_char_def py_lower_def lower_char_def char_of_def bit_Suc_0_iff py_strip_def
      str_int_def str_nat.simps digit_char_def)

theorem branch_name_derivation_witness:
  "create_implementation_plan \<lparr>branch_prefix = ''agent/'', max_iterations = 5\<rparr> 42
       ''Fix bug - crash on Start!''
       (JObj [(''analysis'', JObj [(''files_to_modify'', JArr [JStr ''app.py''])])])
     = Inr \<lparr>plan_issue_number = 42, plan_branch_name = ''agent/issue-42-fix-bug-crash-on-start'',
            plan_files_to_modify = JArr [JStr ''app.py''],
            plan_analysis = JObj [(''analysis'', JObj [(''files_to_modify'', JArr [JStr ''app.py''])])]\<rparr>
   \<and> create_implementation_plan \<lparr>branch_prefix = ''agent/'', max_iterations = 5\<rparr> 42
       ''Fix bug - crash on Start!'' (JObj [])
     = Inr \<lparr>plan_issue_number = 42, plan_branch_name = ''agent/issue-42-fix-bug-crash-on-start'',
            plan_files_to_modify = JArr [], plan_analysis = JObj []\<rparr>
   \<and> one_pass_branch_name \<lparr>branch_prefix = ''agent/'', max_iterations = 5\<rparr> 42
       ''Fix bug - crash on Start!'' = ''agent/issue-42-fix-bug-crash-on-start''"
proof -
  let ?cfg = "\<lparr>branch_prefix = ''agent/'', max_iterations = 5\<rparr>"
  let ?a1 = "JObj [(''analysis'', JObj [(''files_to_modify'', JArr [JStr ''app.py''])])]"
  have p1: "create_implementation_plan ?cfg 42 ''Fix bug - crash on Start!'' ?a1
     = Inr \<lparr>plan_issue_number = 42,
            plan_branch_name = branch_name_of ?cfg 42 ''Fix bug - crash on Start!'',
            plan_files_to_modify = JArr [JStr ''app.py''], plan_analysis = ?a1\<rparr>"
    by (simp add: create_implementation_plan_def exn_bind_def dict_get_def Let_def)
  have p2: "create_implementation_plan ?cfg 42 ''Fix bug - crash on Start!'' (JObj [])
     = Inr \<lparr>plan_issue_number = 42,
            plan_branch_name = branch_name_of ?cfg 42 ''Fix bug - crash on Start!'',
            plan_files_to_modify = JArr [], plan_analysis = JObj []\<rparr>"
    by (simp add: create_implementation_plan_def exn_bind_def dict_get_def Let_def)
  show ?thesis
    using branch_name_derivation [of ?cfg 42 "''Fix bug - crash on Start!''" ?a1
        "\<lparr>plan_issue_number = 42,
            plan_branch_name = branch_name_of ?cfg 42 ''Fix bug - crash on Start!'',
            plan_files_to_modify = JArr [JStr ''app.py''], plan_analysis = ?a1\<rparr>"
        "JObj []"
        "\<lparr>plan_issue_number = 42,
            plan_branch_name = branch_name_of ?cfg 42 ''Fix bug - crash on Start!'',
            plan_files_to_modify = JArr [], plan_analysis = JObj []\<rparr>"]
      p1 p2 example_branch_name
    by simp
qed

subsection \<open>Iteration cap\<close>

lemma add_pr_comment_Some:
  "pulls p n = Some pr \<Longrightarrow>
   add_pr_comment p n c = Inr (p\<lparr>pulls := (pulls p)(n \<mapsto> pr\<lparr>pr_comments := pr_comments pr @ [c]\<rparr>)\<rparr>)"
  by (simp add: add_pr_comment_def get_pull_request_def exn_bind_def)

lemma add_pr_comment_dom:
  assumes "add_pr_comment p n c = Inr p1"
  shows "dom (pulls p1) = dom (pulls p)"
proof (cases "pulls p n")
  case None
  with assms show ?thesis
    by (simp add: add_pr_comment_def get_pull_request_def exn_bind_def)
next
  case (Some pr)
  from assms add_pr_comment_Some [OF Some, of c]
  have "p1 = p\<lparr>pulls := (pulls p)(n \<mapsto> pr\<lparr>pr_comments := pr_comments pr @ [c]\<rparr>)\<rparr>"
    by simp
  with Some show ?thesis by auto
qed

lemma revise_files_pulls: "pulls (revise_files generate pr_no feedback pr fs p) = pulls p"
  by (induction fs arbitrary: p)
     (auto simp: create_or_update_file_def split: option.splits sum.splits)

lemma handle_review_feedback_count:
  "iteration_count (fst (snd (handle_review_feedback cfg generate pr_no feedback (agent, p))))
     = iteration_count agent + 1"
  by (simp add: handle_review_feedback_def Let_def split: sum.splits)

lemma handle_review_feedback_dom:
  "dom (pulls (snd (snd (handle_review_feedback cfg generate pr_no feedback (agent, p)))))
     = dom (pulls p)"
proof -
  show ?thesis
    unfolding handle_review_feedback_def Let_def
    using add_pr_comment_dom [of p pr_no]
    by (auto simp: revise_files_pulls split: sum.splits)
qed

lemma feedback_calls_count:
  "iteration_count (fst (feedback_calls cfg generate calls s))
     = iteration_count (fst s) + int (length calls)"
proof (induction calls arbitrary: s)
  case Nil
  show ?case by simp
next
  case (Cons c cs)
  obtain agent p where s: "s = (agent, p)" by (cases s)
  show ?case
    using handle_review_feedback_count [of cfg generate "fst c" "snd c" agent p]
    by (simp add: Cons.IH s)
qed

lemma feedback_calls_dom:
  "dom (pulls (snd (feedback_calls cfg generate calls s))) = dom (pulls (snd s))"
proof (induction calls arbitrary: s)
  case Nil
  show ?case by simp
next
  case (Cons c cs)
  obtain agent p where s: "s = (agent, p)" by (cases s)
  show ?case
    using handle_review_feedback_dom [of cfg generate "fst c" "snd c" agent p]
    by (simp add: Cons.IH s)
qed

lemma revise_files_Cons:
  "revise_files generate pr_no feedback pr (file_path # rest) p =
     revise_files generate pr_no feedback pr rest
       (case revision_of generate feedback pr p file_path of
          None \<Rightarrow> p
        | Some new_content \<Rightarrow>
            create_or_update_file p file_path new_content
              (''Apply review feedback for PR #'' @ str_int pr_no) (pr_head_ref pr))"
  by (simp add: revision_of_def get_file_content_def apply_feedback_to_file_def exn_bind_def
      split: option.splits sum.splits)

lemma revision_of_cong:
  "contents p' (pr_head_ref pr, path) = contents p (pr_head_ref pr, path) \<Longrightarrow>
   revision_of generate feedback pr p' path = revision_of generate feedback pr p path"
  by (simp add: revision_of_def)

lemma revise_files_contents:
  assumes "distinct fs"
  shows "contents (revise_files generate pr_no feedback pr fs p) (ref, path) =
     (if ref = pr_head_ref pr \<and> path \<in> set fs
      then (case revision_of generate feedback pr p path of
              Some new_content \<Rightarrow> Some new_content
            | None \<Rightarrow> contents p (ref, path))
      else contents p (ref, path))"
  using assms
proof (induction fs arbitrary: p)
  case Nil
  show ?case by simp
next
  case (Cons f rest)
  let ?msg = "''Apply review feedback for PR #'' @ str_int pr_no"
  let ?p1 = "case revision_of generate feedback pr p f of
          None \<Rightarrow> p
        | Some new_content \<Rightarrow> create_or_update_file p f new_content ?msg (pr_head_ref pr)"
  from Cons.prems have f: "f \<notin> set rest" and d: "distinct rest" by simp_all
  have other: "contents ?p1 (r, q) = contents p (r, q)" if "q \<noteq> f" for r q
    using that by (simp add: create_or_update_file_def split: option.splits)
  have at_f: "contents ?p1 (pr_head_ref pr, f) =
      (case revision_of generate feedback pr p f of
         Some new_content \<Rightarrow> Some new_content | None \<Rightarrow> contents p (pr_head_ref pr, f))"
    by (simp add: create_or_update_file_def split: option.splits)
  have other_ref: "contents ?p1 (r, q) = contents p (r, q)" if "r \<noteq> pr_head_ref pr" for r q
    using that by (simp add: create_or_update_file_def split: option.splits)
  have rev_same: "revision_of generate feedback pr ?p1 q = revision_of generate feedback pr p q"
    if "q \<noteq> f" for q
    using that by (intro revision_of_cong other)
  have "contents (revise_files generate pr_no feedback pr (f # rest) p) (ref, path)
      = contents (revise_files generate pr_no feedback pr rest ?p1) (ref, path)"
    by (simp only: revise_files_Cons)
  also have "\<dots> = (if ref = pr_head_ref pr \<and> path \<in> set rest
      then (case revision_of generate feedback pr ?p1 path of
              Some new_content \<Rightarrow> Some new_content
            | None \<Rightarrow> contents ?p1 (ref, path))
      else contents ?p1 (ref, path))"
    by (rule Cons.IH [OF d])
  also have "\<dots> = (if ref = pr_head_ref pr \<and> path \<in> set (f # rest)
      then (case revision_of generate feedback pr p path of
              Some new_content \<Rightarrow> Some new_content
            | None \<Rightarrow> contents p (ref, path))
      else contents p (ref, path))"
  proof (cases "path = f")
    case True
    show ?thesis
      using f at_f other_ref [of ref f] unfolding True
      by (cases "ref = pr_head_ref pr") (auto split: option.splits)
  next
    case False
    show ?thesis
      using False other [of path ref] rev_same [of path] by (auto split: option.splits)
  qed
  finally show ?case .
qed

lemma revise_files_commit_log:
  assumes "distinct fs"
  shows "commit_log (revise_files generate pr_no feedback pr fs p) =
     commit_log p @
     map (\<lambda>path. (pr_head_ref pr, path, ''Apply review feedback for PR #'' @ str_int pr_no))
       (filter (\<lambda>path. revision_of generate feedback pr p path \<noteq> None) fs)"
  using assms
proof (induction fs arbitrary: p)
  case Nil
  show ?case by simp
next
  case (Cons f rest)
  let ?msg = "''Apply review feedback for PR #'' @ str_int pr_no"
  let ?p1 = "case revision_of generate feedback pr p f of
          None \<Rightarrow> p
        | Some new_content \<Rightarrow> create_or_update_file p f new_content ?msg (pr_head_ref pr)"
  from Cons.prems have f: "f \<notin> set rest" and d: "distinct rest" by simp_all
  have other: "contents ?p1 (r, q) = contents p (r, q)" if "q \<noteq> f" for r q
    using that by (simp add: create_or_update_file_def split: option.splits)
  have "revision_of generate feedback pr ?p1 q = revision_of generate feedback pr p q"
    if "q \<in> set rest" for q
    using that f by (intro revision_of_cong other) auto
  then have same: "filter (\<lambda>path. revision_of generate feedback pr ?p1 path \<noteq> None) rest
      = filter (\<lambda>path. revision_of generate feedback pr p path \<noteq> None) rest"
    by (intro filter_cong) auto
  have log1: "commit_log ?p1 = commit_log p @
      (if revision_of generate feedback pr p f \<noteq> None then [(pr_head_ref pr, f, ?msg)] else [])"
    by (simp add: create_or_update_file_def split: option.splits)
  let ?entry = "\<lambda>path. (pr_head_ref pr, path, ?msg)"
  let ?written = "\<lambda>q path. revision_of generate feedback pr q path \<noteq> None"
  have "commit_log (revise_files generate pr_no feedback pr (f # rest) p)
      = commit_log (revise_files generate pr_no feedback pr rest ?p1)"
    by (simp only: revise_files_Cons)
  also have "\<dots> = commit_log ?p1 @ map ?entry (filter (?written ?p1) rest)"
    by (rule Cons.IH [OF d])
  also have "\<dots> = commit_log ?p1 @ map ?entry (filter (?written p) rest)"
    by (simp only: same)
  also have "\<dots> = (commit_log p @ (if ?written p f then [?entry f] else []))
      @ map ?entry (filter (?written p) rest)"
    by (simp only: log1)
  also have "\<dots> = commit_log p @ map ?entry (filter (?written p) (f # rest))"
    by simp
  finally show ?case .
qed

lemma revise_files_result:
  assumes "distinct (pr_files pr)"
    and "pr_head_ref pr1 = pr_head_ref pr" and "pr_body pr1 = pr_body pr"
    and "contents p1 = contents p" and "commit_log p1 = commit_log p"
  shows "revise_files generate pr_no feedback pr1 (pr_files pr) p1 =
     \<lparr>pulls = pulls p1, contents = revised_contents generate feedback pr p,
      commit_log = commit_log p @ revision_commits generate pr_no feedback pr p\<rparr>"
proof -
  have rev: "revision_of generate feedback pr1 p1 path = revision_of generate feedback pr p path"
    for path
    unfolding revision_of_def assms(2,3,4) by (rule refl)
  have c: "contents (revise_files generate pr_no feedback pr1 (pr_files pr) p1)
      = revised_contents generate feedback pr p"
    by (rule ext)
       (auto simp: revised_contents_def revise_files_contents [OF assms(1)] rev assms
             split: option.splits)
  have l: "commit_log (revise_files generate pr_no feedback pr1 (pr_files pr) p1)
      = commit_log p @ revision_commits generate pr_no feedback pr p"
    by (simp add: revision_commits_def revise_files_commit_log [OF assms(1)] rev assms)
  show ?thesis
    by (rule platform.equality) (simp_all add: c l revise_files_pulls)
qed

text \<open>
  C5.  On an agent created with the counter at 0 that has handled \<open>k\<close> feedback calls,
  the next call on an existing pull request proceeds when \<open>k\<close> is below the configured
  maximum: it posts the progress comment for iteration \<open>k + 1\<close>, runs the revision over
  the changed files and returns \<open>True\<close>.  When the changed files are distinct, the
  revision leaves exactly this: each changed file that can be read on the branch of the
  pull request, is not empty, and for which the model answers, without raising, a text
  that differs from the content once stripped, holds that stripped text and has one
  commit with the message naming the pull request, in the order of the changed files;
  every other file is as before.  When \<open>k\<close> has reached the maximum (the call after
  the \<open>N\<close>-th) the call is refused: it posts the escalation comment, leaves file
  contents and commits as they were and returns \<open>False\<close>; it does not raise.
\<close>

theorem iteration_cap:
  assumes fresh: "iteration_count agent0 = 0"
    and after: "feedback_calls cfg generate calls (agent0, p0) = (agent, p)"
    and pr: "pulls p pr_no = Some pr"
  shows "(int (length calls) < max_iterations cfg \<longrightarrow>
            handle_review_feedback cfg generate pr_no feedback (agent, p) =
              (Inr True, agent\<lparr>iteration_count := int (length calls) + 1\<rparr>,
               revise_files generate pr_no feedback
                 (pr\<lparr>pr_comments := pr_comments pr @
                       [progress_comment (int (length calls) + 1) (max_iterations cfg)]\<rparr>)
                 (pr_files pr)
                 (p\<lparr>pulls := (pulls p)(pr_no \<mapsto> pr\<lparr>pr_comments := pr_comments pr @
                       [progress_comment (int (length calls) + 1) (max_iterations cfg)]\<rparr>)\<rparr>))
            \<and> (distinct (pr_files pr) \<longrightarrow>
                 handle_review_feedback cfg generate pr_no feedback (agent, p) =
                   (Inr True, agent\<lparr>iteration_count := int (length calls) + 1\<rparr>,
                    \<lparr>pulls = (pulls p)(pr_no \<mapsto> pr\<lparr>pr_comments := pr_comments pr @
                         [progress_comment (int (length calls) + 1) (max_iterations cfg)]\<rparr>),
                     contents = revised_contents generate feedback pr p,
                     commit_log = commit_log p @ revision_commits generate pr_no feedback pr p\<rparr>)))
       \<and> (max_iterations cfg \<le> int (length calls) \<longrightarrow>
            handle_review_feedback cfg generate pr_no feedback (agent, p) =
              (Inr False, agent\<lparr>iteration_count := int (length calls) + 1\<rparr>,
               p\<lparr>pulls := (pulls p)(pr_no \<mapsto> pr\<lparr>pr_comments := pr_comments pr @
                       [escalation_comment]\<rparr>)\<rparr>))"
proof -
  let ?c = "progress_comment (int (length calls) + 1) (max_iterations cfg)"
  let ?pr1 = "pr\<lparr>pr_comments := pr_comments pr @ [?c]\<rparr>"
  let ?p1 = "p\<lparr>pulls := (pulls p)(pr_no \<mapsto> ?pr1)\<rparr>"
  have count: "iteration_count agent = int (length calls)"
    using feedback_calls_count [of cfg generate calls "(agent0, p0)"] fresh after by simp
  have run: "handle_review_feedback cfg generate pr_no feedback (agent, p) =
      (Inr True, agent\<lparr>iteration_count := int (length calls) + 1\<rparr>,
       revise_files generate pr_no feedback ?pr1 (pr_files pr) ?p1)"
    if "int (length calls) < max_iterations cfg"
    using that
    by (simp add: handle_review_feedback_def Let_def count add_pr_comment_Some [OF pr]
        get_pull_request_def)
  have explicit: "revise_files generate pr_no feedback ?pr1 (pr_files pr) ?p1 =
      \<lparr>pulls = (pulls p)(pr_no \<mapsto> ?pr1),
       contents = revised_contents generate feedback pr p,
       commit_log = commit_log p @ revision_commits generate pr_no feedback pr p\<rparr>"
    if "distinct (pr_files pr)"
    using revise_files_result [OF that, of ?pr1 ?p1 p generate pr_no feedback] by simp
  have refused: "handle_review_feedback cfg generate pr_no feedback (agent, p) =
      (Inr False, agent\<lparr>iteration_count := int (length calls) + 1\<rparr>,
       p\<lparr>pulls := (pulls p)(pr_no \<mapsto> pr\<lparr>pr_comments := pr_comments pr @ [escalation_comment]\<rparr>)\<rparr>)"
    if "max_iterations cfg \<le> int (length calls)"
    using that
    by (simp add: handle_review_feedback_def Let_def count add_pr_comment_Some [OF pr])
  have explicit_run: "handle_review_feedback cfg generate pr_no feedback (agent, p) =
      (Inr True, agent\<lparr>iteration_count := int (length calls) + 1\<rparr>,
       \<lparr>pulls = (pulls p)(pr_no \<mapsto> ?pr1),
        contents = revised_contents generate feedback pr p,
        commit_log = commit_log p @ revision_commits generate pr_no feedback pr p\<rparr>)"
    if "int (length calls) < max_iterations cfg" and "distinct (pr_files pr)"
    using run [OF that(1)] explicit [OF that(2)] by simp
  show ?thesis
    using run explicit_run refused by blast
qed

theorem iteration_cap_witness:
  "iteration_count \<lparr>iteration_count = 0\<rparr> = 0
   \<and> pulls example_platform 1 = Some example_pr
   \<and> distinct (pr_files example_pr)
   \<and> fst (handle_review_feedback \<lparr>branch_prefix = ''agent/'', max_iterations = 1\<rparr>
            (\<lambda>path content feedback description. Inr '' new '') 1 ''fix''
            (\<lparr>iteration_count = 0\<rparr>, example_platform)) = Inr True
   \<and> contents (snd (snd (handle_review_feedback \<lparr>branch_prefix = ''agent/'', max_iterations = 1\<rparr>
            (\<lambda>path content feedback description. Inr '' new '') 1 ''fix''
            (\<lparr>iteration_count = 0\<rparr>, example_platform)))) (''feature'', ''a.py'') = Some ''new''
   \<and> commit_log (snd (snd (handle_review_feedback \<lparr>branch_prefix = ''agent/'', max_iterations = 1\<rparr>
            (\<lambda>path content feedback description. Inr '' new '') 1 ''fix''
            (\<lparr>iteration_count = 0\<rparr>, example_platform))))
       = [(''feature'', ''a.py'', ''Apply review feedback for PR #1'')]
   \<and> pulls (snd (snd (handle_review_feedback \<lparr>branch_prefix = ''agent/'', max_iterations = 1\<rparr>
            (\<lambda>path content feedback description. Inr '' new '') 1 ''fix''
            (\<lparr>iteration_count = 0\<rparr>, example_platform)))) 1
       = Some (example_pr\<lparr>pr_comments :=
                 [''Received review feedback. Making adjustments (iteration 1/1)...'']\<rparr>)
   \<and> handle_review_feedback \<lparr>branch_prefix = ''agent/'', max_iterations = 1\<rparr>
            (\<lambda>path content feedback description. Inr '' new '') 1 ''again''
            (\<lparr>iteration_count = 1\<rparr>,
             \<lparr>pulls = [1 \<mapsto> example_pr\<lparr>pr_comments :=
                 [''Received review feedback. Making adjustments (iteration 1/1)...'']\<rparr>],
              contents = [(''feature'', ''a.py'') \<mapsto> ''new''],
              commit_log = [(''feature'', ''a.py'', ''Apply review feedback for PR #1'')]\<rparr>)
       = (Inr False, \<lparr>iteration_count = 2\<rparr>,
          \<lparr>pulls = [1 \<mapsto> example_pr\<lparr>pr_comments :=
                 [''Received review feedback. Making adjustments (iteration 1/1)...'',
                  ''Maximum iteration limit reached. Manual intervention required.'']\<rparr>],
           contents = [(''feature'', ''a.py'') \<mapsto> ''new''],
           commit_log = [(''feature'', ''a.py'', ''Apply review feedback for PR #1'')]\<rparr>)"
proof -
  let ?cfg = "\<lparr>branch_prefix = ''agent/'', max_iterations = 1\<rparr>"
  let ?gen = "\<lambda>path content feedback description. Inr '' new '' :: exn + string"
  let ?a0 = "\<lparr>iteration_count = 0\<rparr>"
  let ?c1 = "''Received review feedback. Making adjustments (iteration 1/1)...''"
  let ?pr1 = "example_pr\<lparr>pr_comments := [?c1]\<rparr>"
  let ?p1 = "\<lparr>pulls = [1 \<mapsto> ?pr1], contents = [(''feature'', ''a.py'') \<mapsto> ''new''],
              commit_log = [(''feature'', ''a.py'', ''Apply review feedback for PR #1'')]\<rparr>"
  have one: "str_int 1 = ''1''"
    by (simp add: str_int_def str_nat.simps digit_char_def)
  have progress: "progress_comment 1 1 = ?c1"
    by (simp add: progress_comment_def one)
  have fresh: "iteration_count ?a0 = 0" by simp
  have pr0: "pulls example_platform 1 = Some example_pr"
    by (simp add: example_platform_def)
  have dist: "distinct (pr_files example_pr)"
    by (simp add: example_pr_def)
  have strip: "py_strip whitespace '' new '' = ''new''"
    by (simp add: py_strip_def whitespace_def)
  have rev: "revision_of ?gen ''fix'' example_pr example_platform ''a.py'' = Some ''new''"
    by (simp add: revision_of_def example_pr_def example_platform_def strip)
  have first: "handle_review_feedback ?cfg ?gen 1 ''fix'' (?a0, example_platform) =
      (Inr True, ?a0\<lparr>iteration_count := 1\<rparr>,
       \<lparr>pulls = (pulls example_platform)(1 \<mapsto> example_pr\<lparr>pr_comments :=
              pr_comments example_pr @ [progress_comment 1 1]\<rparr>),
        contents = revised_contents ?gen ''fix'' example_pr example_platform,
        commit_log = commit_log example_platform
                       @ revision_commits ?gen 1 ''fix'' example_pr example_platform\<rparr>)"
  proof -
    have after0: "feedback_calls ?cfg ?gen [] (?a0, example_platform) = (?a0, example_platform)"
      by simp
    have below: "int (length ([] :: (int \<times> string) list)) < max_iterations ?cfg"
      by simp
    note inst = iteration_cap [OF fresh after0 pr0, of "''fix''"]
    from inst [THEN conjunct1, THEN mp, OF below, THEN conjunct2, THEN mp, OF dist]
    show ?thesis by simp
  qed
  have c: "revised_contents ?gen ''fix'' example_pr example_platform (''feature'', ''a.py'')
      = Some ''new''"
    by (simp add: revised_contents_def rev) (simp add: example_pr_def)
  have l: "commit_log example_platform @ revision_commits ?gen 1 ''fix'' example_pr example_platform
      = [(''feature'', ''a.py'', ''Apply review feedback for PR #1'')]"
    by (simp add: revision_commits_def example_pr_def example_platform_def one
        rev [unfolded example_pr_def example_platform_def])
  have fresh1: "iteration_count ?a0 = 0" by simp
  have calls1: "feedback_calls ?cfg ?gen [(1, ''fix'')] (?a0, example_platform)
      = (snd (handle_review_feedback ?cfg ?gen 1 ''fix'' (?a0, example_platform)))"
    by simp
  have state1: "snd (handle_review_feedback ?cfg ?gen 1 ''fix'' (?a0, example_platform))
      = (\<lparr>iteration_count = 1\<rparr>, ?p1)"
  proof -
    have "revised_contents ?gen ''fix'' example_pr example_platform
        = [(''feature'', ''a.py'') \<mapsto> ''new'']"
    proof (rule ext)
      fix key :: "string \<times> string"
      obtain a b where key: "key = (a, b)"
        by (cases key)
      show "revised_contents ?gen ''fix'' example_pr example_platform key
          = [(''feature'', ''a.py'') \<mapsto> ''new''] key"
      proof (cases "a = ''feature'' \<and> b = ''a.py''")
        case True
        then show ?thesis
          using c by (simp add: key)
      next
        case False
        then show ?thesis
          by (auto simp add: key revised_contents_def example_pr_def example_platform_def)
      qed
    qed
    with first l progress show ?thesis
      by (simp add: example_platform_def example_pr_def)
  qed
  have pr1: "pulls ?p1 1 = Some ?pr1" by simp
  have second: "handle_review_feedback ?cfg ?gen 1 ''again'' (\<lparr>iteration_count = 1\<rparr>, ?p1) =
      (Inr False, \<lparr>iteration_count = 2\<rparr>,
       \<lparr>pulls = [1 \<mapsto> example_pr\<lparr>pr_comments :=
              [?c1, ''Maximum iteration limit reached. Manual intervention required.'']\<rparr>],
        contents = [(''feature'', ''a.py'') \<mapsto> ''new''],
        commit_log = [(''feature'', ''a.py'', ''Apply review feedback for PR #1'')]\<rparr>)"
  proof -
    have after1: "feedback_calls ?cfg ?gen [(1, ''fix'')] (?a0, example_platform)
        = (\<lparr>iteration_count = 1\<rparr>, ?p1)"
      using calls1 state1 by simp
    have reached: "max_iterations ?cfg \<le> int (length [(1 :: int, ''fix'')])"
      by simp
    note inst = iteration_cap [OF fresh1 after1 pr1, of "''again''"]
    from inst [THEN conjunct2, THEN mp, OF reached]
    show ?thesis by (simp add: escalation_comment_def)
  qed
  have none: "pr_comments example_pr = []"
    by (simp add: example_pr_def)
  from first c l progress pr0 dist second none show ?thesis
    by simp
qed

subsection \<open>Poll cycle\<close>

lemma issue_turn_world:
  "snd (snd (issue_turn process_issue s n)) = snd (process_issue n (snd (snd s)))"
  by (auto simp: issue_turn_def split: prod.splits sum.splits)

lemma pr_turn_world:
  "snd (snd (pr_turn review s n)) = snd (review n (snd (snd s)))"
  by (auto simp: pr_turn_def split: prod.splits sum.splits)

lemma issue_loop_world:
  "snd (snd (foldl (issue_turn process_issue) s items)) = world_after process_issue (snd (snd s)) items"
  by (induction items arbitrary: s) (simp_all add: world_after_def issue_turn_world)

lemma pr_loop_world:
  "snd (snd (foldl (pr_turn review) s items)) = world_after review (snd (snd s)) items"
  by (induction items arbitrary: s) (simp_all add: world_after_def pr_turn_world)

lemma issue_turn_errors: "set (errors (fst s)) \<subseteq> set (errors (fst (issue_turn process_issue s n)))"
  by (auto simp: issue_turn_def split: prod.splits sum.splits)

lemma pr_turn_errors: "set (errors (fst s)) \<subseteq> set (errors (fst (pr_turn review s n)))"
  by (auto simp: pr_turn_def split: prod.splits sum.splits)

lemma issue_loop_errors:
  "set (errors (fst s)) \<subseteq> set (errors (fst (foldl (issue_turn process_issue) s items)))"
proof (induction items arbitrary: s)
  case Nil
  show ?case by simp
next
  case (Cons n ns)
  show ?case
    using issue_turn_errors [of s process_issue n] Cons.IH [of "issue_turn process_issue s n"]
    by auto
qed

lemma pr_loop_errors:
  "set (errors (fst s)) \<subseteq> set (errors (fst (foldl (pr_turn review) s items)))"
proof (induction items arbitrary: s)
  case Nil
  show ?case by simp
next
  case (Cons n ns)
  show ?case
    using pr_turn_errors [of s review n] Cons.IH [of "pr_turn review s n"]
    by auto
qed

lemma issue_turn_records:
  "fst (process_issue n (snd (snd s))) = Inl e \<Longrightarrow>
   ''Issue #'' @ str_int n @ '': '' @ str_exn e \<in> set (errors (fst (issue_turn process_issue s n)))"
  by (auto simp: issue_turn_def split: prod.splits sum.splits)

lemma pr_turn_records:
  "fst (review n (snd (snd s))) = Inl e \<Longrightarrow>
   ''PR #'' @ str_int n @ '': '' @ str_exn e \<in> set (errors (fst (pr_turn review s n)))"
  by (auto simp: pr_turn_def split: prod.splits sum.splits)

lemma issue_loop_records:
  assumes "i < length items"
    and "fst (process_issue (items ! i) (world_after process_issue (snd (snd s)) (take i items))) = Inl e"
  shows "''Issue #'' @ str_int (items ! i) @ '': '' @ str_exn e
           \<in> set (errors (fst (foldl (issue_turn process_issue) s items)))"
proof -
  let ?s1 = "foldl (issue_turn process_issue) s (take i items)"
  have split: "items = take i items @ items ! i # drop (Suc i) items"
    using assms(1) by (simp add: id_take_nth_drop)
  have "foldl (issue_turn process_issue) s items
      = foldl (issue_turn process_issue) (issue_turn process_issue ?s1 (items ! i)) (drop (Suc i) items)"
    by (subst split) (simp only: foldl_append foldl_Cons)
  moreover have "''Issue #'' @ str_int (items ! i) @ '': '' @ str_exn e
       \<in> set (errors (fst (issue_turn process_issue ?s1 (items ! i))))"
    using assms(2) by (intro issue_turn_records) (simp add: issue_loop_world)
  ultimately show ?thesis
    using issue_loop_errors [of "issue_turn process_issue ?s1 (items ! i)" process_issue
        "drop (Suc i) items"]
    by auto
qed

lemma pr_loop_records:
  assumes "i < length items"
    and "fst (review (items ! i) (world_after review (snd (snd s)) (take i items))) = Inl e"
  shows "''PR #'' @ str_int (items ! i) @ '': '' @ str_exn e
           \<in> set (errors (fst (foldl (pr_turn review) s items)))"
proof -
  let ?s1 = "foldl (pr_turn review) s (take i items)"
  have split: "items = take i items @ items ! i # drop (Suc i) items"
    using assms(1) by (simp add: id_take_nth_drop)
  have "foldl (pr_turn review) s items
      = foldl (pr_turn review) (pr_turn review ?s1 (items ! i)) (drop (Suc i) items)"
    by (subst split) (simp only: foldl_append foldl_Cons)
  moreover have "''PR #'' @ str_int (items ! i) @ '': '' @ str_exn e
       \<in> set (errors (fst (pr_turn review ?s1 (items ! i))))"
    using assms(2) by (intro pr_turn_records) (simp add: pr_loop_world)
  ultimately show ?thesis
    using pr_loop_errors [of "pr_turn review ?s1 (items ! i)" review "drop (Suc i) items"]
    by auto
qed

text \<open>
  C8.  In a poll cycle whose two listings succeed, the cycle returns its result; the
  world ends as the one in which every new issue and then every pending pull request
  has been handled in order, whether or not an earlier one raised; and for each item
  whose handling raised, the entry naming it (\<open>Issue #n: e\<close> or \<open>PR #n: e\<close>) is among
  the errors of the result.
\<close>

theorem cycle_isolates_failures:
  assumes issues: "get_new_issues proc w = (Inr new_issues, proc1)"
    and prs: "get_pending_prs (world_after process_issue w new_issues) = Inr pending_prs"
  shows "snd (snd (process_pending_issues get_new_issues get_pending_prs process_issue review (proc, w)))
           = world_after review (world_after process_issue w new_issues) pending_prs
    \<and> (\<forall>i e. i < length new_issues
          \<and> fst (process_issue (new_issues ! i) (world_after process_issue w (take i new_issues))) = Inl e
        \<longrightarrow> ''Issue #'' @ str_int (new_issues ! i) @ '': '' @ str_exn e
              \<in> set (errors (fst (process_pending_issues get_new_issues get_pending_prs
                                     process_issue review (proc, w)))))
    \<and> (\<forall>i e. i < length pending_prs
          \<and> fst (review (pending_prs ! i)
                  (world_after review (world_after process_issue w new_issues) (take i pending_prs))) = Inl e
        \<longrightarrow> ''PR #'' @ str_int (pending_prs ! i) @ '': '' @ str_exn e
              \<in> set (errors (fst (process_pending_issues get_new_issues get_pending_prs
                                     process_issue review (proc, w)))))"
proof -
  let ?r0 = "\<lparr>issues_processed = 0, prs_reviewed = 0, errors = []\<rparr>"
  let ?s1 = "foldl (issue_turn process_issue) (?r0, proc1, w) new_issues"
  have w1: "snd (snd ?s1) = world_after process_issue w new_issues"
    by (simp add: issue_loop_world)
  have run: "process_pending_issues get_new_issues get_pending_prs process_issue review (proc, w)
      = foldl (pr_turn review) ?s1 pending_prs"
    using issues prs by (simp add: process_pending_issues_def Let_def w1)
  have world: "snd (snd (foldl (pr_turn review) ?s1 pending_prs))
      = world_after review (world_after process_issue w new_issues) pending_prs"
    by (simp add: pr_loop_world w1)
  have issue_errors: "''Issue #'' @ str_int (new_issues ! i) @ '': '' @ str_exn e
        \<in> set (errors (fst (foldl (pr_turn review) ?s1 pending_prs)))"
    if "i < length new_issues"
      and "fst (process_issue (new_issues ! i) (world_after process_issue w (take i new_issues))) = Inl e"
    for i e
    using issue_loop_records [of i new_issues process_issue "(?r0, proc1, w)" e] that
      pr_loop_errors [of ?s1 review pending_prs]
    by auto
  have pr_errors: "''PR #'' @ str_int (pending_prs ! i) @ '': '' @ str_exn e
        \<in> set (errors (fst (foldl (pr_turn review) ?s1 pending_prs)))"
    if "i < length pending_prs"
      and "fst (review (pending_prs ! i)
             (world_after review (world_after process_issue w new_issues) (take i pending_prs))) = Inl e"
    for i e
    using pr_loop_records [of i pending_prs review ?s1 e] that by (simp add: w1)
  show ?thesis
    unfolding run using world issue_errors pr_errors by blast
qed

theorem cycle_isolates_failures_witness:
  "snd (snd (process_pending_issues (\<lambda>proc w. (Inr [1, 2, 3], proc)) (\<lambda>w. Inr [5, 6])
               example_process_issue example_review (\<lparr>processed_issues = {}\<rparr>, [])))
     = [1, 2, 3, 5, 6]
   \<and> ''Issue #2: boom'' \<in> set (errors (fst (process_pending_issues
          (\<lambda>proc w. (Inr [1, 2, 3], proc)) (\<lambda>w. Inr [5, 6])
          example_process_issue example_review (\<lparr>processed_issues = {}\<rparr>, []))))
   \<and> ''PR #5: bang'' \<in> set (errors (fst (process_pending_issues
          (\<lambda>proc w. (Inr [1, 2, 3], proc)) (\<lambda>w. Inr [5, 6])
          example_process_issue example_review (\<lparr>processed_issues = {}\<rparr>, []))))"
proof -
  let ?run = "process_pending_issues (\<lambda>proc w. (Inr [1, 2, 3], proc)) (\<lambda>w. Inr [5, 6])
          example_process_issue example_review (\<lparr>processed_issues = {}\<rparr>, [])"
  have h1: "(\<lambda>proc w. (Inr [1, 2, 3], proc)) \<lparr>processed_issues = {}\<rparr> ([] :: int list)
      = (Inr [1, 2, 3], \<lparr>processed_issues = {}\<rparr>)"
    by simp
  have h2: "(\<lambda>w. Inr [5, 6]) (world_after example_process_issue [] [1, 2, 3]) = Inr [5, 6]"
    by simp
  note t = cycle_isolates_failures [of "\<lambda>proc w. (Inr [1, 2, 3], proc)" "\<lparr>processed_issues = {}\<rparr>"
      "[]" "[1, 2, 3]" "\<lparr>processed_issues = {}\<rparr>" "\<lambda>w. Inr [5, 6]" example_process_issue "[5, 6]"
      example_review, OF h1 h2]
  have a: "snd (snd ?run) = [1, 2, 3, 5, 6]"
    using t by (simp add: world_after_def example_process_issue_def example_review_def)
  have "1 < length [1, 2, 3 :: int] \<and> fst (example_process_issue ([1, 2, 3] ! 1)
          (world_after example_process_issue [] (take 1 [1, 2, 3]))) = Inl (Exception ''boom'')"
    by (simp add: example_process_issue_def)
  with t have b: "''Issue #'' @ str_int ([1, 2, 3] ! 1) @ '': '' @ str_exn (Exception ''boom'')
      \<in> set (errors (fst ?run))"
    by blast
  have "0 < length [5, 6 :: int] \<and> fst (example_review ([5, 6] ! 0)
          (world_after example_review (world_after example_process_issue [] [1, 2, 3]) (take 0 [5, 6])))
        = Inl (Exception ''bang'')"
    by (simp add: example_review_def world_after_def)
  with t have c: "''PR #'' @ str_int ([5, 6] ! 0) @ '': '' @ str_exn (Exception ''bang'')
      \<in> set (errors (fst ?run))"
    by blast
  have "str_int 2 = ''2''" "str_int 5 = ''5''"
    by (simp_all add: str_int_def str_nat.simps digit_char_def)
  with a b c show ?thesis by simp
qed

subsection \<open>Response interpreter\<close>

lemma search_braces_framed:
  assumes "CHR ''{'' \<notin> set pre" and "CHR ''}'' \<notin> set post"
  shows "search_braces (pre @ CHR ''{'' # body @ CHR ''}'' # post) = Some (CHR ''{'' # body @ [CHR ''}''])"
proof -
  have open_at: "dropWhile (\<lambda>c. c \<noteq> CHR ''{'') (pre @ CHR ''{'' # body @ CHR ''}'' # post)
      = CHR ''{'' # body @ CHR ''}'' # post"
    using assms(1) by (subst dropWhile_append2) auto
  have close_at: "dropWhile (\<lambda>c. c \<noteq> CHR ''}'') (rev post @ CHR ''}'' # rev body)
      = CHR ''}'' # rev body"
    using assms(2) by (subst dropWhile_append2) auto
  show ?thesis
    by (simp add: search_braces_def Let_def open_at close_at)
qed

text \<open>
  C2 (amended).  For a text \<open>pre {body} post\<close> in which \<open>pre\<close> has no opening brace and
  \<open>post\<close> no closing brace, the extracted span is \<open>{body}\<close>, and when the decoder accepts
  it the review is the decoded value.  For a text with no span, or whose span the
  decoder rejects with \<open>JSONDecodeError\<close>, the review is the fallback review built from
  the text and the analysis of an issue is the fallback analysis built from the issue;
  neither raises.
\<close>

theorem response_interpreter:
  "(CHR ''{'' \<notin> set pre \<and> CHR ''}'' \<notin> set post
      \<and> loads (CHR ''{'' # body @ [CHR ''}'']) = Inr decoded
    \<longrightarrow> search_braces (pre @ CHR ''{'' # body @ CHR ''}'' # post) = Some (CHR ''{'' # body @ [CHR ''}''])
        \<and> perform_llm_review loads (Inr (pre @ CHR ''{'' # body @ CHR ''}'' # post)) = decoded)
   \<and> (search_braces response = None
       \<or> (\<exists>matched m. search_braces response = Some matched \<and> loads matched = Inl (JSONDecodeError m))
    \<longrightarrow> perform_llm_review loads (Inr response) = create_fallback_review response
        \<and> analyze_issue loads tree_result issue (Inr response) = Inr (fallback_analysis issue))"
proof (intro conjI impI)
  assume a: "CHR ''{'' \<notin> set pre \<and> CHR ''}'' \<notin> set post
      \<and> loads (CHR ''{'' # body @ [CHR ''}'']) = Inr decoded"
  then show s: "search_braces (pre @ CHR ''{'' # body @ CHR ''}'' # post)
      = Some (CHR ''{'' # body @ [CHR ''}''])"
    by (simp add: search_braces_framed)
  from a show "perform_llm_review loads (Inr (pre @ CHR ''{'' # body @ CHR ''}'' # post)) = decoded"
    by (simp add: perform_llm_review_def s)
next
  assume b: "search_braces response = None
       \<or> (\<exists>matched m. search_braces response = Some matched \<and> loads matched = Inl (JSONDecodeError m))"
  then show "perform_llm_review loads (Inr response) = create_fallback_review response"
    by (auto simp: perform_llm_review_def)
  from b show "analyze_issue loads tree_result issue (Inr response) = Inr (fallback_analysis issue)"
    by (auto simp: analyze_issue_def exn_bind_def)
qed

lemma example_loads:
  \<open>json_loads ''{"status": "approved"}'' = Inr (JObj [(''status'', JStr ''approved'')])\<close>
  by code_simp

lemma example_loads_fails:
  \<open>json_loads ''{diff}: {"status": "approved"}'' = Inl (JSONDecodeError ''Expecting value'')\<close>
  by code_simp

lemma example_search:
  \<open>search_braces ''See {diff}: {"status": "approved"}'' = Some ''{diff}: {"status": "approved"}''\<close>
  by code_simp

theorem response_interpreter_witness:
  \<open>CHR ''{'' \<notin> set ''Review: '' \<and> CHR ''}'' \<notin> set '' Done.''
   \<and> json_loads ''{"status": "approved"}'' = Inr (JObj [(''status'', JStr ''approved'')])
   \<and> perform_llm_review json_loads (Inr ''Review: {"status": "approved"} Done.'')
       = JObj [(''status'', JStr ''approved'')]
   \<and> search_braces ''no object here'' = None
   \<and> perform_llm_review json_loads (Inr ''no object here'') = create_fallback_review ''no object here''
   \<and> search_braces ''See {diff}: {"status": "approved"}'' = Some ''{diff}: {"status": "approved"}''
   \<and> json_loads ''{diff}: {"status": "approved"}'' = Inl (JSONDecodeError ''Expecting value'')
   \<and> analyze_issue json_loads (Inr [])
        \<lparr>issue_number = 7, issue_title = ''Add loader'', issue_body = None, issue_labels = {},
          issue_comments = []\<rparr>
        (Inr ''See {diff}: {"status": "approved"}'')
       = Inr (fallback_analysis
             \<lparr>issue_number = 7, issue_title = ''Add loader'', issue_body = None, issue_labels = {},
               issue_comments = []\<rparr>)\<close>
proof -
  have none: "search_braces ''no object here'' = None"
    by code_simp
  have h: \<open>CHR ''{'' \<notin> set ''Review: '' \<and> CHR ''}'' \<notin> set '' Done.''\<close>
    by simp
  have whole: \<open>''Review: '' @ CHR ''{'' # ''"status": "approved"'' @ CHR ''}'' # '' Done.''
      = ''Review: {"status": "approved"} Done.''\<close>
    by simp
  have obj: \<open>CHR ''{'' # ''"status": "approved"'' @ [CHR ''}''] = ''{"status": "approved"}''\<close>
    by simp
  have first: \<open>perform_llm_review json_loads (Inr ''Review: {"status": "approved"} Done.'')
       = JObj [(''status'', JStr ''approved'')]\<close>
    using response_interpreter [of \<open>''Review: ''\<close> \<open>'' Done.''\<close> json_loads \<open>''"status": "approved"''\<close>
        \<open>JObj [(''status'', JStr ''approved'')]\<close>] h example_loads
    unfolding whole obj by blast
  have second: "perform_llm_review json_loads (Inr ''no object here'')
      = create_fallback_review ''no object here''"
    using response_interpreter [of _ _ json_loads _ _ "''no object here''"] none by blast
  have third: \<open>analyze_issue json_loads (Inr [])
        \<lparr>issue_number = 7, issue_title = ''Add loader'', issue_body = None, issue_labels = {},
          issue_comments = []\<rparr>
        (Inr ''See {diff}: {"status": "approved"}'')
       = Inr (fallback_analysis
             \<lparr>issue_number = 7, issue_title = ''Add loader'', issue_body = None, issue_labels = {},
               issue_comments = []\<rparr>)\<close>
    using response_interpreter [of _ _ json_loads _ _ \<open>''See {diff}: {"status": "approved"}''\<close>]
      example_search example_loads_fails by blast
  from h example_loads first none second example_search example_loads_fails third
  show ?thesis by blast
qed

text \<open>
  Without the condition on the surrounding text the round trip fails: the text below
  holds one well-formed JSON object, but the span starts at the earlier brace, does not
  decode, and the review is the fallback review, not the decoded object.
\<close>

theorem greedy_span_counterexample:
  \<open>json_loads ''{"status": "approved"}'' = Inr (JObj [(''status'', JStr ''approved'')])
   \<and> perform_llm_review json_loads (Inr ''See {diff}: {"status": "approved"}'')
       = create_fallback_review ''See {diff}: {"status": "approved"}''
   \<and> perform_llm_review json_loads (Inr ''See {diff}: {"status": "approved"}'')
       \<noteq> JObj [(''status'', JStr ''approved'')]\<close>
proof -
  have r: \<open>perform_llm_review json_loads (Inr ''See {diff}: {"status": "approved"}'')
       = create_fallback_review ''See {diff}: {"status": "approved"}''\<close>
    by (simp add: perform_llm_review_def example_search example_loads_fails)
  have \<open>create_fallback_review ''See {diff}: {"status": "approved"}''
      \<noteq> JObj [(''status'', JStr ''approved'')]\<close>
    by (simp add: create_fallback_review_def Let_def)
  with r example_loads show ?thesis by simp
qed

text \<open>
  The analysis of an issue reads the decoded object further; an object without the key
  \<open>analysis\<close> makes the assignment of the discovered files raise \<open>KeyError\<close>.
\<close>

lemma analyze_issue_key_error:
  \<open>analyze_issue json_loads (Inr [''a.py''])
      \<lparr>issue_number = 7, issue_title = ''t'', issue_body = None, issue_labels = {}, issue_comments = []\<rparr>
      (Inr ''{"a": 1}'')
    = Inl (KeyError ([CHR 0x27] @ ''analysis'' @ [CHR 0x27]))\<close>
  by code_simp

end
